theory Spec2Isabelle
  imports Complex_Main "HOL-Library.Word" "HOL-Library.Sublist" "HOL-Library.Signed_Division"
    "HOL-Library.AList"
begin

section \<open>Vision service: capture engine, frame processor, session registry\<close>

text \<open>
  A shallow embedding of \<^verbatim>\<open>vision-service/src\<close>: \<^verbatim>\<open>camera_manager.{h,cpp}\<close>,
  \<^verbatim>\<open>frame_processor.{h,cpp}\<close> and \<^verbatim>\<open>vision_service.{h,cpp}\<close>. C++ \<^verbatim>\<open>int\<close> is a
  \<open>32 word\<close> read with \<open>sint\<close>, \<^verbatim>\<open>int64_t\<close> a \<open>64 word\<close>, \<^verbatim>\<open>std::string\<close> a
  \<open>string\<close>, \<^verbatim>\<open>std::vector<uint8_t>\<close> a list of bytes. What the code takes from
  outside (the file system, the OpenCV build and devices, the clock, thread creation) is
  a field of the environment record \<open>env\<close>.
\<close>

subsection \<open>Errors\<close>

text \<open>
  A call of the model returns \<open>error + 'a\<close>. \<open>Relock\<close>: the calling thread locks
  \<^verbatim>\<open>config_mutex_\<close> (a non-recursive \<^verbatim>\<open>std::mutex\<close>) while it already owns it; the
  behaviour is undefined and in practice the thread blocks for ever, so the call does
  not return. \<open>Terminate\<close>: a \<^verbatim>\<open>std::thread\<close> object that was never joined is
  destroyed, which calls \<^verbatim>\<open>std::terminate\<close>. \<open>Filesystem_error\<close>:
  \<^verbatim>\<open>std::filesystem::exists\<close> throws because the status of the path cannot be
  determined. \<open>Exception w\<close>: any other \<^verbatim>\<open>std::exception\<close> with
  \<^verbatim>\<open>what() = w\<close> that leaves the function. Only the last two are exceptions that a
  \<^verbatim>\<open>catch\<close> block sees.
\<close>

datatype error = Relock | Terminate | Filesystem_error | Exception string

fun is_exception :: "error \<Rightarrow> bool" where
  "is_exception (Exception w) = True"
| "is_exception Filesystem_error = True"
| "is_exception Relock = False"
| "is_exception Terminate = False"

definition and_then :: "error + 'a \<Rightarrow> ('a \<Rightarrow> error + 'b) \<Rightarrow> error + 'b" where
  "and_then m f = (case m of Inl e \<Rightarrow> Inl e | Inr x \<Rightarrow> f x)"

subsection \<open>camera\_manager.h: types and constants\<close>

datatype CameraType = UNKNOWN | FILE_VIDEO | WEBCAM | RTSP_STREAM | HTTP_STREAM | TEST_PATTERN

text \<open>\<^verbatim>\<open>std::filesystem::file_type\<close>, what \<^verbatim>\<open>status(path)\<close> reports for a path.\<close>

datatype file_type =
  FT_none | FT_not_found | FT_regular | FT_directory | FT_symlink
  | FT_block | FT_character | FT_fifo | FT_socket | FT_unknown

definition SUPPORTED_VIDEO_FORMATS :: "string list" where
  "SUPPORTED_VIDEO_FORMATS =
     [''.mp4'', ''.avi'', ''.mov'', ''.mkv'', ''.wmv'', ''.flv'', ''.webm'']"

definition RTSP_PREFIXES :: "string list" where
  "RTSP_PREFIXES = [''rtsp://'', ''rtmp://'', ''rtp://'']"

definition HTTP_PREFIXES :: "string list" where
  "HTTP_PREFIXES = [''http://'', ''https://'']"

definition WEBCAM_PATTERNS :: "string list" where
  "WEBCAM_PATTERNS = [''/dev/video'', ''/dev/v4l/by-id/'']"

subsection \<open>CameraManager::DetectCameraType\<close>

text \<open>
  \<^verbatim>\<open>url.find(p) == 0\<close>: the first occurrence of \<open>p\<close> in \<open>url\<close> is at position 0,
  that is, the first \<open>length p\<close> characters of \<open>url\<close> are \<open>p\<close>.
\<close>

definition find_at_0 :: "string \<Rightarrow> string \<Rightarrow> bool" where
  "find_at_0 url p = (take (length p) url = p)"

text \<open>
  \<^verbatim>\<open>url.size() >= ext.size() && url.compare(url.size() - ext.size(), ext.size(), ext) == 0\<close>
\<close>

definition compare_tail :: "string \<Rightarrow> string \<Rightarrow> bool" where
  "compare_tail url ext =
     (length ext \<le> length url \<and> drop (length url - length ext) url = ext)"

text \<open>
  \<^verbatim>\<open>std::filesystem::exists(url)\<close>: \<^verbatim>\<open>exists(status(url))\<close>. The throwing overload
  of \<^verbatim>\<open>status\<close> raises \<^verbatim>\<open>filesystem_error\<close> when the type is \<^verbatim>\<open>none\<close>; otherwise
  the path exists unless its type is \<^verbatim>\<open>not_found\<close>.
\<close>

definition fs_exists :: "(string \<Rightarrow> file_type) \<Rightarrow> string \<Rightarrow> error + bool" where
  "fs_exists fs p =
     (case fs p of FT_none \<Rightarrow> Inl Filesystem_error
      | FT_not_found \<Rightarrow> Inr False
      | _ \<Rightarrow> Inr True)"

definition DetectCameraType :: "(string \<Rightarrow> file_type) \<Rightarrow> string \<Rightarrow> error + CameraType" where
  "DetectCameraType fs url =
     (if url = [] then Inr UNKNOWN
      else if url = ''test://pattern'' \<or> find_at_0 url ''test://'' then Inr TEST_PATTERN
      else if list_ex (find_at_0 url) RTSP_PREFIXES then Inr RTSP_STREAM
      else if list_ex (find_at_0 url) HTTP_PREFIXES then Inr HTTP_STREAM
      else if list_ex (find_at_0 url) WEBCAM_PATTERNS then Inr WEBCAM
      else if list_ex (compare_tail url) SUPPORTED_VIDEO_FORMATS then Inr FILE_VIDEO
      else and_then (fs_exists fs url)
             (\<lambda>found. if found then Inr FILE_VIDEO else Inr UNKNOWN))"

definition IsValidCameraUrl :: "(string \<Rightarrow> file_type) \<Rightarrow> string \<Rightarrow> error + bool" where
  "IsValidCameraUrl fs url =
     and_then (DetectCameraType fs url) (\<lambda>t. Inr (t \<noteq> UNKNOWN))"

text \<open>
  The classification as the specification words it (section 4.1, rules 1 to 8): the
  seventh rule asks for an existing \<^emph>\<open>regular\<close> file, and everything else is
  \<open>UNKNOWN\<close>.
\<close>

definition ClassifyUrl_spec :: "(string \<Rightarrow> file_type) \<Rightarrow> string \<Rightarrow> CameraType" where
  "ClassifyUrl_spec fs url =
     (if url = [] then UNKNOWN
      else if url = ''test://pattern'' \<or> prefix ''test://'' url then TEST_PATTERN
      else if prefix ''rtsp://'' url \<or> prefix ''rtmp://'' url \<or> prefix ''rtp://'' url
        then RTSP_STREAM
      else if prefix ''http://'' url \<or> prefix ''https://'' url then HTTP_STREAM
      else if prefix ''/dev/video'' url \<or> prefix ''/dev/v4l/by-id/'' url then WEBCAM
      else if suffix ''.mp4'' url \<or> suffix ''.avi'' url \<or> suffix ''.mov'' url
           \<or> suffix ''.mkv'' url \<or> suffix ''.wmv'' url \<or> suffix ''.flv'' url
           \<or> suffix ''.webm'' url
        then FILE_VIDEO
      else if fs url = FT_regular then FILE_VIDEO
      else UNKNOWN)"

text \<open>A file system in which \<^verbatim>\<open>/tmp\<close> is a directory and nothing else exists.\<close>

definition fs_tmp_dir :: "string \<Rightarrow> file_type" where
  "fs_tmp_dir p = (if p = ''/tmp'' then FT_directory else FT_not_found)"

subsection \<open>frame\_processor.h: Frame\<close>

type_synonym int32 = "32 word"
type_synonym int64 = "64 word"

text \<open>A \<^verbatim>\<open>steady_clock::time_point\<close>, in nanoseconds since the clock's epoch.\<close>

type_synonym time_point = nat

record Frame =
  data :: "8 word list"
  width :: int32
  height :: int32
  format :: string
  timestamp :: time_point

text \<open>\<^verbatim>\<open>Frame()\<close>: no data, 0 by 0, format \<^verbatim>\<open>"unknown"\<close>.\<close>

definition Frame_default :: Frame where
  "Frame_default = \<lparr>data = [], width = 0, height = 0, format = ''unknown'', timestamp = 0\<rparr>"

subsection \<open>camera\_manager.h: configuration, state, statistics\<close>

text \<open>
  The fields of \<^verbatim>\<open>CameraConfig\<close> that share a name with a field of \<open>Frame\<close> carry
  the prefix \<open>cfg_\<close>; the private members of the classes lose their trailing
  underscore.
\<close>

record CameraConfig =
  cfg_width :: int32
  cfg_height :: int32
  cfg_fps :: int32
  cfg_format :: string
  auto_reconnect :: bool
  reconnect_delay_ms :: int32
  max_reconnect_attempts :: int32
  frame_buffer_size :: int32

text \<open>\<^verbatim>\<open>CameraConfig()\<close>, the member initialisers of the struct.\<close>

definition CameraConfig_default :: CameraConfig where
  "CameraConfig_default =
     \<lparr>cfg_width = 640, cfg_height = 480, cfg_fps = 15, cfg_format = ''bgr'',
      auto_reconnect = True, reconnect_delay_ms = 5000, max_reconnect_attempts = 3,
      frame_buffer_size = 30\<rparr>"

datatype CameraState =
  UNINITIALIZED | INITIALIZING | READY | CAPTURING | ERROR | DISCONNECTED | RECONNECTING

record CameraStats =
  frames_captured :: int64
  frames_dropped :: int64
  bytes_received :: int64
  reconnect_count :: int64
  start_time :: time_point
  last_frame_time :: time_point

text \<open>
  What a method does that other threads can observe, in program order: the stores to
  the atomics \<^verbatim>\<open>state_\<close>, \<^verbatim>\<open>reconnect_attempts_\<close> and
  \<^verbatim>\<open>stats_.reconnect_count\<close>, the creation and the join of the worker thread, the
  sleeps, and the calls of the frame callback. The record of a manager keeps them in
  the list \<open>events\<close>, oldest first; the list is an observer of the model and no member
  of the class.
\<close>

datatype event =
  State_set CameraState
  | Attempts_set int32
  | Reconnect_count_set int64
  | Sleep_ms int
  | Worker_spawned
  | Worker_joined
  | Callback_invoked Frame

text \<open>
  \<open>capture_thread\<close>: the \<^verbatim>\<open>unique_ptr\<close> holds a thread. \<open>frame_callback\<close>: the
  \<^verbatim>\<open>std::function\<close> is not empty. The frame buffer and \<^verbatim>\<open>last_reconnect_time_\<close>
  are never used by the code and are left out.
\<close>

record CameraManager =
  camera_url :: string
  camera_type :: CameraType
  config :: CameraConfig
  state :: CameraState
  stats :: CameraStats
  last_error :: string
  capture_thread :: bool
  should_stop :: bool
  is_capturing :: bool
  frame_callback :: bool
  reconnect_attempts :: int32
  events :: "event list"

subsection \<open>The environment\<close>

text \<open>
  \<open>filesystem\<close>: the file system, as \<^verbatim>\<open>std::filesystem::status\<close> sees it.
  \<open>have_opencv\<close>: the build defines \<^verbatim>\<open>HAVE_OPENCV\<close>.
  \<open>cv_open url\<close>: constructing a \<^verbatim>\<open>cv::VideoCapture\<close> on the URL and asking
  \<^verbatim>\<open>isOpened()\<close>; \<open>Inl\<close> when the constructor throws.
  \<open>webcam_index url\<close>: the device index that \<^verbatim>\<open>std::regex_search\<close> and
  \<^verbatim>\<open>std::stoi\<close> read from the URL (0 when the pattern does not occur), \<open>None\<close>
  when \<^verbatim>\<open>std::stoi\<close> throws; \<open>cv_open_index i\<close> opens that device.
  \<open>thread_start\<close>: \<open>None\<close> when \<^verbatim>\<open>std::thread\<close> starts the worker, \<open>Some w\<close>
  when its constructor throws with \<^verbatim>\<open>what() = w\<close>.
  \<open>steady_now\<close>: what \<^verbatim>\<open>steady_clock::now()\<close> returns during the call.
  \<open>epoch_ms\<close>: \<^verbatim>\<open>system_clock::now()\<close> in milliseconds since the epoch.
\<close>

record env =
  filesystem :: "string \<Rightarrow> file_type"
  have_opencv :: bool
  cv_open :: "string \<Rightarrow> error + bool"
  webcam_index :: "string \<Rightarrow> int32 option"
  cv_open_index :: "int32 \<Rightarrow> error + bool"
  thread_start :: "string option"
  steady_now :: time_point
  epoch_ms :: nat

text \<open>\<^verbatim>\<open>e.what()\<close>; the text of a \<^verbatim>\<open>filesystem_error\<close> is implementation defined.\<close>

fun what :: "error \<Rightarrow> string" where
  "what (Exception w) = w"
| "what Filesystem_error = ''filesystem error''"
| "what Relock = []"
| "what Terminate = []"

subsection \<open>CameraManager: construction, state and error setters\<close>

definition CameraStats_new :: "time_point \<Rightarrow> CameraStats" where
  "CameraStats_new t =
     \<lparr>frames_captured = 0, frames_dropped = 0, bytes_received = 0, reconnect_count = 0,
      start_time = t, last_frame_time = 0\<rparr>"

definition CameraManager_new :: "env \<Rightarrow> string \<Rightarrow> error + CameraManager" where
  "CameraManager_new e url =
     and_then (DetectCameraType (filesystem e) url)
       (\<lambda>t. Inr \<lparr>camera_url = url, camera_type = t, config = CameraConfig_default,
                 state = UNINITIALIZED, stats = CameraStats_new (steady_now e),
                 last_error = [], capture_thread = False, should_stop = False,
                 is_capturing = False, frame_callback = False, reconnect_attempts = 0,
                 events = []\<rparr>)"

definition log :: "event \<Rightarrow> CameraManager \<Rightarrow> CameraManager" where
  "log ev s = s\<lparr>events := events s @ [ev]\<rparr>"

definition SetState :: "CameraState \<Rightarrow> CameraManager \<Rightarrow> CameraManager" where
  "SetState new_state s = log (State_set new_state) (s\<lparr>state := new_state\<rparr>)"

text \<open>
  \<^verbatim>\<open>SetError\<close> takes \<^verbatim>\<open>config_mutex_\<close> itself. The first argument says whether the
  caller holds a \<^verbatim>\<open>lock_guard\<close> on that mutex at the call: then the call locks a
  mutex its thread owns.
\<close>

definition SetError :: "bool \<Rightarrow> string \<Rightarrow> CameraManager \<Rightarrow> error + CameraManager" where
  "SetError caller_holds_config_mutex msg s =
     (if caller_holds_config_mutex then Inl Relock else Inr (s\<lparr>last_error := msg\<rparr>))"

definition SetConfig :: "CameraConfig \<Rightarrow> CameraManager \<Rightarrow> CameraManager" where
  "SetConfig c s = s\<lparr>config := c\<rparr>"

definition SetFrameCallback :: "CameraManager \<Rightarrow> CameraManager" where
  "SetFrameCallback s = s\<lparr>frame_callback := True\<rparr>"

definition ClearFrameCallback :: "CameraManager \<Rightarrow> CameraManager" where
  "ClearFrameCallback s = s\<lparr>frame_callback := False\<rparr>"

subsection \<open>CameraManager::Initialize\<close>

definition InitializeFileCapture :: "env \<Rightarrow> CameraManager \<Rightarrow> error + bool \<times> CameraManager" where
  "InitializeFileCapture e s =
     (if have_opencv e then
        and_then (cv_open e (camera_url s))
          (\<lambda>opened. if \<not> opened
             then and_then (SetError False (''Failed to open video file: '' @ camera_url s) s)
                    (\<lambda>s. Inr (False, s))
             else Inr (True, s))
      else and_then (SetError False ''OpenCV not available for file capture'' s)
             (\<lambda>s. Inr (False, s)))"

definition InitializeWebcamCapture :: "env \<Rightarrow> CameraManager \<Rightarrow> error + bool \<times> CameraManager" where
  "InitializeWebcamCapture e s =
     (if have_opencv e then
        (case webcam_index e (camera_url s) of
           None \<Rightarrow> and_then (SetError False ''Invalid webcam device index'' s)
                     (\<lambda>s. Inr (False, s))
         | Some i \<Rightarrow>
             and_then (cv_open_index e i)
               (\<lambda>opened. if \<not> opened
                  then and_then (SetError False (''Failed to open webcam: '' @ camera_url s) s)
                         (\<lambda>s. Inr (False, s))
                  else Inr (True, s)))
      else and_then (SetError False ''OpenCV not available for webcam capture'' s)
             (\<lambda>s. Inr (False, s)))"

definition InitializeRtspCapture :: "env \<Rightarrow> CameraManager \<Rightarrow> error + bool \<times> CameraManager" where
  "InitializeRtspCapture e s =
     (if have_opencv e then
        and_then (cv_open e (camera_url s))
          (\<lambda>opened. if \<not> opened
             then and_then (SetError False (''Failed to open RTSP stream: '' @ camera_url s) s)
                    (\<lambda>s. Inr (False, s))
             else Inr (True, s))
      else and_then (SetError False ''OpenCV not available for RTSP capture'' s)
             (\<lambda>s. Inr (False, s)))"

definition InitializeTestPattern :: "CameraManager \<Rightarrow> error + bool \<times> CameraManager" where
  "InitializeTestPattern s = Inr (True, s)"

text \<open>The \<^verbatim>\<open>switch\<close> on the camera type inside the \<^verbatim>\<open>try\<close> block.\<close>

definition backend_init :: "env \<Rightarrow> CameraManager \<Rightarrow> error + bool \<times> CameraManager" where
  "backend_init e s =
     (case camera_type s of
        FILE_VIDEO \<Rightarrow> InitializeFileCapture e s
      | WEBCAM \<Rightarrow> InitializeWebcamCapture e s
      | RTSP_STREAM \<Rightarrow> InitializeRtspCapture e s
      | TEST_PATTERN \<Rightarrow> InitializeTestPattern s
      | _ \<Rightarrow> and_then (SetError False ''Unsupported camera type'' s) (\<lambda>s. Inr (False, s)))"

text \<open>
  The configuration check runs \<^verbatim>\<open>INT_MAX / height\<close> only after \<^verbatim>\<open>height <= 0\<close> has
  failed, so both operands are positive and C++ division is \<open>div\<close>. An exception of
  the backend is caught and becomes a failed initialisation; what is no exception is
  not caught.
\<close>

definition Initialize :: "env \<Rightarrow> CameraConfig \<Rightarrow> CameraManager \<Rightarrow> error + bool \<times> CameraManager" where
  "Initialize e c s =
     (if sint (cfg_width c) \<le> 0 \<or> sint (cfg_height c) \<le> 0 \<or> sint (cfg_fps c) \<le> 0
         \<or> sint (cfg_width c) > 2147483647 div sint (cfg_height c)
      then and_then (SetError False ''Invalid configuration parameters'' s)
             (\<lambda>s. Inr (False, SetState ERROR s))
      else if state s \<noteq> UNINITIALIZED
      then and_then (SetError True ''Already initialized'' s) (\<lambda>s. Inr (False, s))
      else
        (let s1 = (SetState INITIALIZING s)\<lparr>config := c\<rparr>;
             tried = (case backend_init e s1 of
                        Inl x \<Rightarrow>
                          if is_exception x
                          then and_then
                                 (SetError False (''Initialization exception: '' @ what x) s1)
                                 (\<lambda>s. Inr (False, s))
                          else Inl x
                      | Inr r \<Rightarrow> Inr r)
         in and_then tried
              (\<lambda>(success, s2).
                 if success
                 then Inr (True, (SetState READY s2)
                            \<lparr>stats := (stats s2)\<lparr>start_time := steady_now e\<rparr>\<rparr>)
                 else Inr (False, SetState ERROR s2))))"

text \<open>\<^verbatim>\<open>Initialize()\<close> without argument passes \<^verbatim>\<open>CameraConfig()\<close>.\<close>

definition Initialize_default :: "env \<Rightarrow> CameraManager \<Rightarrow> error + bool \<times> CameraManager" where
  "Initialize_default e s = Initialize e CameraConfig_default s"

subsection \<open>CameraManager::StartCapture, StopCapture, Cleanup\<close>

text \<open>
  The first block of \<^verbatim>\<open>StartCapture\<close> runs under a \<^verbatim>\<open>lock_guard\<close> on
  \<^verbatim>\<open>config_mutex_\<close>, and its \<^verbatim>\<open>SetError\<close> is called inside that block. The
  \<^verbatim>\<open>catch\<close> block releases its guard before it calls \<^verbatim>\<open>SetError\<close>. The new thread
  is created before it is assigned to \<^verbatim>\<open>capture_thread_\<close>: a thread object that the
  pointer still holds (the worker left its loop by itself and was never joined) is
  destroyed by the assignment. When the creation throws, the \<^verbatim>\<open>catch\<close> block joins
  such a thread instead.
\<close>

definition StartCapture :: "env \<Rightarrow> CameraManager \<Rightarrow> error + bool \<times> CameraManager" where
  "StartCapture e s =
     (if state s \<noteq> READY
      then and_then (SetError True ''Camera not ready for capture'' s) (\<lambda>s. Inr (False, s))
      else if is_capturing s then Inr (True, s)
      else
        (let s1 = s\<lparr>should_stop := False\<rparr> in
         case thread_start e of
           None \<Rightarrow>
             if capture_thread s1 then Inl Terminate
             else Inr (True, SetState CAPTURING
                               ((log Worker_spawned (s1\<lparr>capture_thread := True\<rparr>))
                                  \<lparr>is_capturing := True\<rparr>))
         | Some w \<Rightarrow>
             (let s2 = SetState READY (s1\<lparr>should_stop := True, is_capturing := False\<rparr>) in
              and_then (SetError False (''Failed to start capture thread: '' @ w) s2)
                (\<lambda>s3. Inr (False,
                           (if capture_thread s3 then log Worker_joined s3 else s3)
                             \<lparr>capture_thread := False\<rparr>)))))"

text \<open>
  \<open>from_worker\<close>: the caller is the capture thread itself. The join returns once the
  worker has seen the stop flag and left its loop.
\<close>

definition StopCapture :: "bool \<Rightarrow> CameraManager \<Rightarrow> bool \<times> CameraManager" where
  "StopCapture from_worker s =
     (if \<not> is_capturing s then (True, s)
      else if capture_thread s \<and> from_worker then (False, s)
      else
        (let s1 = s\<lparr>should_stop := True\<rparr>;
             s2 = (if capture_thread s1 then log Worker_joined s1 else s1);
             s3 = s2\<lparr>capture_thread := False, is_capturing := False\<rparr>
         in (True, if state s3 = CAPTURING then SetState READY s3 else s3)))"

definition Cleanup :: "bool \<Rightarrow> CameraManager \<Rightarrow> CameraManager" where
  "Cleanup from_worker s =
     SetState UNINITIALIZED ((snd (StopCapture from_worker s))\<lparr>frame_callback := False\<rparr>)"

text \<open>
  The destructor runs \<^verbatim>\<open>Cleanup\<close> and then destroys the members. \<^verbatim>\<open>StopCapture\<close>
  returns early for a manager that is not capturing, so a worker thread that left its
  loop by itself is still unjoined when \<^verbatim>\<open>capture_thread_\<close> is destroyed.
\<close>

definition CameraManager_destroy :: "bool \<Rightarrow> CameraManager \<Rightarrow> error + unit" where
  "CameraManager_destroy from_worker s =
     (if capture_thread (Cleanup from_worker s) then Inl Terminate else Inr ())"

subsection \<open>CameraManager: the capture worker\<close>

definition InitializeCapture :: "CameraManager \<Rightarrow> bool \<times> CameraManager" where
  "InitializeCapture s = (True, log (Attempts_set 0) (s\<lparr>reconnect_attempts := 0\<rparr>))"

definition ShouldAttemptReconnect :: "CameraManager \<Rightarrow> bool" where
  "ShouldAttemptReconnect s =
     (auto_reconnect (config s)
      \<and> sint (reconnect_attempts s) < sint (max_reconnect_attempts (config s)))"

definition HandleCaptureError :: "string \<Rightarrow> CameraManager \<Rightarrow> error + CameraManager" where
  "HandleCaptureError msg s =
     and_then (SetError False msg s)
       (\<lambda>s. if auto_reconnect (config s) then Inr (SetState DISCONNECTED s)
            else Inr (SetState ERROR s))"

text \<open>
  The part of \<^verbatim>\<open>AttemptReconnect\<close> before \<^verbatim>\<open>InitializeCapture\<close>: the state
  becomes \<open>RECONNECTING\<close>, both counters are incremented, the thread sleeps for the
  reconnect delay.
\<close>

definition reconnect_prologue :: "CameraManager \<Rightarrow> CameraManager" where
  "reconnect_prologue s =
     (let s1 = SetState RECONNECTING s;
          s2 = log (Attempts_set (reconnect_attempts s1 + 1))
                 (s1\<lparr>reconnect_attempts := reconnect_attempts s1 + 1\<rparr>);
          s3 = log (Reconnect_count_set (reconnect_count (stats s2) + 1))
                 (s2\<lparr>stats := (stats s2)\<lparr>reconnect_count := reconnect_count (stats s2) + 1\<rparr>\<rparr>)
      in log (Sleep_ms (sint (reconnect_delay_ms (config s3)))) s3)"

text \<open>
  \<^verbatim>\<open>AttemptReconnect\<close> calls itself when \<^verbatim>\<open>InitializeCapture\<close> fails and attempts
  remain. \<^verbatim>\<open>InitializeCapture\<close> returns \<^verbatim>\<open>true\<close> on every path, so that branch is
  never taken and the recursion ends at once.
\<close>

function AttemptReconnect :: "CameraManager \<Rightarrow> error + CameraManager" where
  "AttemptReconnect s =
     (if sint (max_reconnect_attempts (config s)) \<le> sint (reconnect_attempts s)
      then and_then (SetError False ''Maximum reconnect attempts exceeded'' s)
             (\<lambda>s. Inr (SetState ERROR s))
      else if fst (InitializeCapture (reconnect_prologue s))
      then Inr (log (Attempts_set 0)
                 ((SetState CAPTURING (snd (InitializeCapture (reconnect_prologue s))))
                    \<lparr>reconnect_attempts := 0\<rparr>))
      else if ShouldAttemptReconnect (snd (InitializeCapture (reconnect_prologue s)))
      then AttemptReconnect (snd (InitializeCapture (reconnect_prologue s)))
      else Inr (SetState ERROR (snd (InitializeCapture (reconnect_prologue s)))))"
  by pat_completeness auto
termination
  by (relation "{}") (auto simp: InitializeCapture_def)

declare AttemptReconnect.simps [simp del]

text \<open>
  \<^verbatim>\<open>CameraManager::ValidateFrame\<close>. The product is taken in \<^verbatim>\<open>size_t\<close> (64 bits)
  after both factors have been found positive.
\<close>

definition CameraManager_ValidateFrame :: "Frame \<Rightarrow> bool" where
  "CameraManager_ValidateFrame f =
     (if data f = [] then False
      else if sint (width f) \<le> 0 \<or> sint (height f) \<le> 0 then False
      else if length (data f)
                < unat ((signed (width f) :: 64 word) * signed (height f)) div 2 then False
      else True)"

definition UpdateStats :: "env \<Rightarrow> Frame \<Rightarrow> CameraManager \<Rightarrow> CameraManager" where
  "UpdateStats e f s =
     s\<lparr>stats := (stats s)
          \<lparr>frames_captured := frames_captured (stats s) + 1,
           bytes_received := bytes_received (stats s) + of_nat (length (data f)),
           last_frame_time := steady_now e\<rparr>\<rparr>"

text \<open>An exception of the callback is caught and dropped.\<close>

definition NotifyFrameAvailable :: "Frame \<Rightarrow> CameraManager \<Rightarrow> CameraManager" where
  "NotifyFrameAvailable f s = (if frame_callback s then log (Callback_invoked f) s else s)"

text \<open>
  \<^verbatim>\<open>CaptureFrame\<close>. \<open>captured\<close> is what the type-specific call
  (\<^verbatim>\<open>CaptureFileFrame\<close>, \<^verbatim>\<open>CaptureWebcamFrame\<close>, \<^verbatim>\<open>CaptureRtspFrame\<close>,
  \<^verbatim>\<open>CaptureTestFrame\<close>) returns: the frame of the decoder or of the pattern generator,
  or the exception it throws. For the other camera types no call is made and the frame
  stays \<^verbatim>\<open>Frame()\<close>.
\<close>

definition CaptureFrame :: "env \<Rightarrow> error + Frame \<Rightarrow> CameraManager \<Rightarrow> error + bool \<times> CameraManager" where
  "CaptureFrame e captured s =
     and_then
       (case camera_type s of
          FILE_VIDEO \<Rightarrow> and_then captured (\<lambda>f. Inr (f, data f \<noteq> []))
        | WEBCAM \<Rightarrow> and_then captured (\<lambda>f. Inr (f, data f \<noteq> []))
        | RTSP_STREAM \<Rightarrow> and_then captured (\<lambda>f. Inr (f, data f \<noteq> []))
        | TEST_PATTERN \<Rightarrow> and_then captured (\<lambda>f. Inr (f, True))
        | _ \<Rightarrow> Inr (Frame_default, False))
       (\<lambda>(frame, success).
          if success \<and> CameraManager_ValidateFrame frame
          then Inr (success, NotifyFrameAvailable frame (UpdateStats e frame s))
          else Inr (success, s))"

text \<open>
  \<^verbatim>\<open>TestPatternGenerator::GenerateColorBars\<close>, the pattern of the first call of
  \<^verbatim>\<open>CaptureTestFrame\<close>, for a generator of the given width and height at the given
  time. The size is computed in \<^verbatim>\<open>size_t\<close>; \<^verbatim>\<open>resize\<close> throws
  \<^verbatim>\<open>std::length_error\<close> beyond the maximal size of a vector (\<open>2 ^ 63 - 1\<close> bytes),
  and memory is taken to suffice below it. The loops run over the rows and the columns
  and write the three bytes of the colour of each pixel's bar; they do not run when a
  dimension is not positive, and the bytes stay 0.
\<close>

definition colors :: "8 word list list" where
  "colors = [[255, 255, 255], [0, 255, 255], [255, 255, 0], [0, 255, 0],
             [255, 0, 255], [0, 0, 255], [255, 0, 0], [0, 0, 0]]"

definition GenerateColorBars :: "time_point \<Rightarrow> int32 \<Rightarrow> int32 \<Rightarrow> error + Frame" where
  "GenerateColorBars now w h =
     (let frame_size = unat ((signed w :: 64 word) * signed h * 3);
          bar_width = max 1 (sint w sdiv 8)
      in if frame_size \<ge> 2 ^ 63 then Inl (Exception ''vector::_M_default_append'')
         else Inr \<lparr>data =
                     (if 0 < sint w \<and> 0 < sint h
                      then concat (map (\<lambda>y. concat (map
                             (\<lambda>x. colors ! (if int x div bar_width \<ge> 8 then 7
                                              else nat (int x div bar_width)))
                             [0 ..< nat (sint w)]))
                           [0 ..< nat (sint h)])
                      else replicate frame_size 0),
                   width = w, height = h, format = ''bgr'', timestamp = now\<rparr>)"

text \<open>The pacing sleep: \<^verbatim>\<open>1000 / std::max(1, config_.fps)\<close> milliseconds.\<close>

definition pace :: "CameraManager \<Rightarrow> CameraManager" where
  "pace s = log (Sleep_ms (1000 div max 1 (sint (cfg_fps (config s))))) s"

text \<open>
  One turn of the \<^verbatim>\<open>while\<close> loop of \<^verbatim>\<open>CaptureLoop\<close>; the Boolean says that the
  turn left the loop by \<^verbatim>\<open>break\<close>. A \<^verbatim>\<open>std::exception\<close> inside the \<^verbatim>\<open>try\<close> goes to
  \<^verbatim>\<open>HandleCaptureError\<close> and the loop goes on without the pacing sleep.
\<close>

definition CaptureLoop_body :: "env \<Rightarrow> error + Frame \<Rightarrow> CameraManager \<Rightarrow> error + bool \<times> CameraManager" where
  "CaptureLoop_body e captured s =
     (case CaptureFrame e captured s of
        Inl x \<Rightarrow>
          if is_exception x
          then and_then (HandleCaptureError (''Capture exception: '' @ what x) s)
                 (\<lambda>s. Inr (False, s))
          else Inl x
      | Inr (ok, s1) \<Rightarrow>
          if \<not> ok then
            (if auto_reconnect (config s1) \<and> ShouldAttemptReconnect s1
             then and_then (AttemptReconnect s1) (\<lambda>s2. Inr (False, pace s2))
             else and_then (SetError False ''Capture failed and reconnect disabled'' s1)
                    (\<lambda>s2. Inr (True, SetState ERROR s2)))
          else Inr (False, pace s1))"

text \<open>
  \<^verbatim>\<open>CaptureLoop\<close> over the frames the source delivers, one per turn. The loop ends
  when the stop flag is set or a turn breaks; then \<^verbatim>\<open>is_capturing_\<close> is cleared. The
  result is \<open>None\<close> when the frames run out while the loop is still running.
\<close>

fun CaptureLoop :: "env \<Rightarrow> (error + Frame) list \<Rightarrow> CameraManager \<Rightarrow> (error + CameraManager) option" where
  "CaptureLoop e [] s =
     (if should_stop s then Some (Inr (s\<lparr>is_capturing := False\<rparr>)) else None)"
| "CaptureLoop e (c # cs) s =
     (if should_stop s then Some (Inr (s\<lparr>is_capturing := False\<rparr>))
      else case CaptureLoop_body e c s of
             Inl x \<Rightarrow> Some (Inl x)
           | Inr (stop, s1) \<Rightarrow>
               if stop then Some (Inr (s1\<lparr>is_capturing := False\<rparr>))
               else CaptureLoop e cs s1)"

subsection \<open>frame\_processor: constants, results, detectors\<close>

definition DEFAULT_MIN_AREA :: int32 where "DEFAULT_MIN_AREA = 100"
definition DEFAULT_MAX_DETECTIONS :: int32 where "DEFAULT_MAX_DETECTIONS = 10"
definition MAX_FRAME_WIDTH :: int where "MAX_FRAME_WIDTH = 4096"
definition MAX_FRAME_HEIGHT :: int where "MAX_FRAME_HEIGHT = 4096"
definition MIN_FRAME_WIDTH :: int where "MIN_FRAME_WIDTH = 32"
definition MIN_FRAME_HEIGHT :: int where "MIN_FRAME_HEIGHT = 32"

definition SUPPORTED_FORMATS :: "string list" where
  "SUPPORTED_FORMATS = [''bgr'', ''rgb'', ''gray'', ''jpeg'', ''png'']"

text \<open>
  Modelled from the spec: the messages \<^verbatim>\<open>BoundingBox\<close> and \<^verbatim>\<open>Detection\<close> of
  \<^verbatim>\<open>vision.pb.h\<close>, which is generated and not among the sources. Section 3 gives a
  detection an id, a type, a confidence, a timestamp in milliseconds, a bounding box
  and string metadata. The confidence is a \<^verbatim>\<open>float\<close>; the model keeps the value it is
  given and computes nothing with it.
\<close>

record BoundingBox =
  box_x :: int32
  box_y :: int32
  box_width :: int32
  box_height :: int32

record Detection =
  det_id :: string
  det_type :: string
  confidence :: rat
  det_timestamp :: int64
  bbox :: BoundingBox
  metadata :: "(string \<times> string) list"

record ProcessingResult =
  detections :: "Detection list"
  processing_time_ms :: int64
  success :: bool
  error_message :: string

text \<open>\<^verbatim>\<open>ProcessingResult()\<close>: no detections, time 0, success.\<close>

definition ProcessingResult_default :: ProcessingResult where
  "ProcessingResult_default =
     \<lparr>detections = [], processing_time_ms = 0, success = True, error_message = []\<rparr>"

text \<open>\<^verbatim>\<open>std::to_string\<close> of a number that is not negative.\<close>

fun to_string :: "nat \<Rightarrow> string" where
  "to_string n =
     (if n < 10 then [''0123456789'' ! n]
      else to_string (n div 10) @ [''0123456789'' ! (n mod 10)])"

declare to_string.simps [simp del]

text \<open>
  What one call of \<^verbatim>\<open>BasicMotionDetector::Detect\<close> reads from outside: whether the
  random draw of \<^verbatim>\<open>HasSignificantChange\<close> is below 0.3, the confidence that the
  expression with \<^verbatim>\<open>rand()\<close> yields and its \<^verbatim>\<open>std::to_string\<close>, and the system clock
  in microseconds and in milliseconds.
\<close>

record draw =
  below_threshold :: bool
  drawn_confidence :: rat
  drawn_confidence_str :: string
  now_us :: nat
  now_ms :: nat

text \<open>
  The members of \<^verbatim>\<open>BasicMotionDetector\<close>, and the draws of its calls to come
  (\<open>draws (calls m)\<close> is the draw of the next call).
\<close>

record BasicMotionDetector =
  md_initialized :: bool
  previous_frame :: Frame
  detection_counter :: int32
  draws :: "nat \<Rightarrow> draw"
  calls :: nat

definition BasicMotionDetector_new :: "(nat \<Rightarrow> draw) \<Rightarrow> BasicMotionDetector" where
  "BasicMotionDetector_new ds =
     \<lparr>md_initialized = False, previous_frame = Frame_default, detection_counter = 0,
      draws = ds, calls = 0\<rparr>"

definition HasSignificantChange :: "draw \<Rightarrow> Frame \<Rightarrow> Frame \<Rightarrow> bool" where
  "HasSignificantChange d current previous =
     (if length (data current) \<noteq> length (data previous) then True else below_threshold d)"

definition GenerateDetectionId :: "draw \<Rightarrow> BasicMotionDetector \<Rightarrow> string" where
  "GenerateDetectionId d m =
     ''motion_'' @ to_string (now_us d) @ ''_'' @
       (if sint (detection_counter m) < 0
        then ''-'' @ to_string (nat (- sint (detection_counter m)))
        else to_string (nat (sint (detection_counter m))))"

definition CreateMotionDetection ::
    "draw \<Rightarrow> BasicMotionDetector \<Rightarrow> int32 \<Rightarrow> int32 \<Rightarrow> int32 \<Rightarrow> int32 \<Rightarrow> Detection" where
  "CreateMotionDetection d m x y w h =
     \<lparr>det_id = GenerateDetectionId d m, det_type = ''motion'',
      confidence = drawn_confidence d, det_timestamp = of_nat (now_ms d),
      bbox = \<lparr>box_x = x, box_y = y, box_width = w, box_height = h\<rparr>,
      metadata = [(''algorithm'', ''simulated''),
                  (''confidence_str'', drawn_confidence_str d),
                  (''detector'', ''BasicMotionDetector'')]\<rparr>"

text \<open>
  C++ \<^verbatim>\<open>/\<close> and \<^verbatim>\<open>%\<close> on \<^verbatim>\<open>int\<close> truncate towards zero (\<open>sdiv\<close>, \<open>smod\<close>); the
  counter starts at 0 and only grows, and the sums stay far inside 32 bits.
\<close>

definition BasicMotionDetector_Detect ::
    "Frame \<Rightarrow> BasicMotionDetector \<Rightarrow> Detection list \<times> BasicMotionDetector" where
  "BasicMotionDetector_Detect frame m =
     (if \<not> md_initialized m then ([], m)
      else if data (previous_frame m) = [] then ([], m\<lparr>previous_frame := frame\<rparr>)
      else
        (let d = draws m (calls m);
             m1 = m\<lparr>calls := calls m + 1\<rparr>;
             c = sint (detection_counter m1)
         in if HasSignificantChange d frame (previous_frame m1)
            then ([CreateMotionDetection d m1
                     (of_int (100 + c smod 400))
                     (of_int (100 + (c sdiv 10) smod 200))
                     (of_int (80 + c smod 40))
                     (of_int (60 + c smod 30))],
                  m1\<lparr>detection_counter := detection_counter m1 + 1,
                     previous_frame := frame\<rparr>)
            else ([], m1\<lparr>previous_frame := frame\<rparr>)))"

definition BasicMotionDetector_Initialize :: "BasicMotionDetector \<Rightarrow> bool \<times> BasicMotionDetector" where
  "BasicMotionDetector_Initialize m = (True, m\<lparr>md_initialized := True, detection_counter := 0\<rparr>)"

definition BasicMotionDetector_Cleanup :: "BasicMotionDetector \<Rightarrow> BasicMotionDetector" where
  "BasicMotionDetector_Cleanup m = m\<lparr>md_initialized := False, previous_frame := Frame_default\<rparr>"

text \<open>
  Any other class that implements the interface \<^verbatim>\<open>Detector\<close>: its state and its four
  virtual functions. \<^verbatim>\<open>Detect\<close> returns its detections, or \<open>Inl w\<close> when it throws a
  \<^verbatim>\<open>std::exception\<close> with \<^verbatim>\<open>what() = w\<close>.
\<close>

record 'st CustomDetector =
  impl_state :: 'st
  impl_Detect :: "Frame \<Rightarrow> 'st \<Rightarrow> (string + Detection list) \<times> 'st"
  impl_GetName :: "'st \<Rightarrow> string"
  impl_Initialize :: "'st \<Rightarrow> bool \<times> 'st"
  impl_Cleanup :: "'st \<Rightarrow> 'st"

datatype 'st Detector = Basic BasicMotionDetector | Custom "'st CustomDetector"

fun Detect :: "Frame \<Rightarrow> 'st Detector \<Rightarrow> (string + Detection list) \<times> 'st Detector" where
  "Detect f (Basic m) =
     (case BasicMotionDetector_Detect f m of (ds, m') \<Rightarrow> (Inr ds, Basic m'))"
| "Detect f (Custom c) =
     (case impl_Detect c f (impl_state c) of (r, st) \<Rightarrow> (r, Custom (c\<lparr>impl_state := st\<rparr>)))"

fun GetName :: "'st Detector \<Rightarrow> string" where
  "GetName (Basic m) = ''BasicMotionDetector''"
| "GetName (Custom c) = impl_GetName c (impl_state c)"

fun Detector_Initialize :: "'st Detector \<Rightarrow> bool \<times> 'st Detector" where
  "Detector_Initialize (Basic m) =
     (case BasicMotionDetector_Initialize m of (ok, m') \<Rightarrow> (ok, Basic m'))"
| "Detector_Initialize (Custom c) =
     (case impl_Initialize c (impl_state c) of (ok, st) \<Rightarrow> (ok, Custom (c\<lparr>impl_state := st\<rparr>)))"

fun Detector_Cleanup :: "'st Detector \<Rightarrow> 'st Detector" where
  "Detector_Cleanup (Basic m) = Basic (BasicMotionDetector_Cleanup m)"
| "Detector_Cleanup (Custom c) = Custom (c\<lparr>impl_state := impl_Cleanup c (impl_state c)\<rparr>)"

subsection \<open>FrameUtils and FrameProcessor\<close>

text \<open>
  \<^verbatim>\<open>FrameUtils::CalculateFrameSize\<close>: the product is computed in \<^verbatim>\<open>int\<close> and
  converted to \<^verbatim>\<open>size_t\<close>. Signed overflow is undefined in C++; the model wraps. The
  validation below calls it with both dimensions at most 4096, where nothing overflows.
\<close>

definition CalculateFrameSize :: "int32 \<Rightarrow> int32 \<Rightarrow> string \<Rightarrow> 64 word" where
  "CalculateFrameSize w h fmt =
     (if fmt = ''bgr'' \<or> fmt = ''rgb'' then signed (w * h * 3)
      else if fmt = ''gray'' then signed (w * h)
      else if fmt = ''jpeg'' \<or> fmt = ''png'' then of_int (sint (w * h * 3) sdiv 2)
      else 0)"

definition IsValidFormat :: "string \<Rightarrow> bool" where
  "IsValidFormat fmt = (fmt \<in> set SUPPORTED_FORMATS)"

text \<open>
  \<^verbatim>\<open>FrameProcessor::ValidateFrame\<close>. The last test is
  \<^verbatim>\<open>frame.data.size() < expected_size * 0.8\<close> in \<^verbatim>\<open>double\<close>. The double nearest to 0.8
  is \<open>0.8 * (1 + 2 ^ -54)\<close>, so for an expected size below \<open>2 ^ 26\<close> (4096 by 4096 by
  3) the rounded product is \<open>4 * expected_size / 5\<close> when that is an integer and lies
  strictly between the same two integers as it otherwise: the test is
  \<open>5 * size < 4 * expected_size\<close> on integers.
\<close>

definition FrameProcessor_ValidateFrame :: "Frame \<Rightarrow> bool" where
  "FrameProcessor_ValidateFrame f =
     (if data f = [] then False
      else if sint (width f) < MIN_FRAME_WIDTH \<or> sint (width f) > MAX_FRAME_WIDTH
              \<or> sint (height f) < MIN_FRAME_HEIGHT \<or> sint (height f) > MAX_FRAME_HEIGHT
        then False
      else if format f = [] then False
      else if unat (CalculateFrameSize (width f) (height f) (format f)) > 0
              \<and> 5 * length (data f)
                  < 4 * unat (CalculateFrameSize (width f) (height f) (format f))
        then False
      else True)"

text \<open>
  The members of \<^verbatim>\<open>FrameProcessor\<close>. \<^verbatim>\<open>motion_threshold_\<close> (a \<^verbatim>\<open>double\<close> that no
  function reads) is left out. An entry of \<open>detectors\<close> is \<open>None\<close> for a null
  \<^verbatim>\<open>unique_ptr\<close>.
\<close>

record 'st FrameProcessor =
  detectors :: "'st Detector option list"
  initialized :: bool
  total_frames_processed :: int64
  total_detections :: int64
  total_processing_time :: int64
  min_detection_area :: int32
  max_detections_per_frame :: int32

definition FrameProcessor_new :: "'st FrameProcessor" where
  "FrameProcessor_new =
     \<lparr>detectors = [], initialized = False, total_frames_processed = 0,
      total_detections = 0, total_processing_time = 0,
      min_detection_area = DEFAULT_MIN_AREA,
      max_detections_per_frame = DEFAULT_MAX_DETECTIONS\<rparr>"

text \<open>\<open>ds\<close>: the draws of the motion detector that \<^verbatim>\<open>Initialize\<close> creates.\<close>

definition FrameProcessor_Initialize ::
    "(nat \<Rightarrow> draw) \<Rightarrow> 'st FrameProcessor \<Rightarrow> bool \<times> 'st FrameProcessor" where
  "FrameProcessor_Initialize ds p =
     (if initialized p then (True, p)
      else case BasicMotionDetector_Initialize (BasicMotionDetector_new ds) of
             (ok, m) \<Rightarrow>
               if \<not> ok then (False, p)
               else (True, p\<lparr>detectors := detectors p @ [Some (Basic m)],
                              initialized := True\<rparr>))"

definition FrameProcessor_Cleanup :: "'st FrameProcessor \<Rightarrow> 'st FrameProcessor" where
  "FrameProcessor_Cleanup p = p\<lparr>detectors := [], initialized := False\<rparr>"

definition AddDetector :: "'st Detector option \<Rightarrow> 'st FrameProcessor \<Rightarrow> 'st FrameProcessor" where
  "AddDetector d p =
     (case d of
        None \<Rightarrow> p
      | Some det \<Rightarrow>
          (case Detector_Initialize det of
             (ok, det') \<Rightarrow> if ok then p\<lparr>detectors := detectors p @ [Some det']\<rparr> else p))"

definition RemoveDetector :: "string \<Rightarrow> 'st FrameProcessor \<Rightarrow> 'st FrameProcessor" where
  "RemoveDetector detector_name p =
     p\<lparr>detectors :=
         filter (\<lambda>d. \<not> (case d of None \<Rightarrow> False | Some det \<Rightarrow> GetName det = detector_name))
           (detectors p)\<rparr>"

definition GetDetectorNames :: "'st FrameProcessor \<Rightarrow> string list" where
  "GetDetectorNames p =
     concat (map (\<lambda>d. case d of None \<Rightarrow> [] | Some det \<Rightarrow> [GetName det]) (detectors p))"

definition SetMinDetectionArea :: "int32 \<Rightarrow> 'st FrameProcessor \<Rightarrow> 'st FrameProcessor" where
  "SetMinDetectionArea area p =
     p\<lparr>min_detection_area := (if sint area < 1 then 1 else area)\<rparr>"

definition SetMaxDetectionsPerFrame :: "int32 \<Rightarrow> 'st FrameProcessor \<Rightarrow> 'st FrameProcessor" where
  "SetMaxDetectionsPerFrame max_detections p =
     p\<lparr>max_detections_per_frame := (if sint max_detections < 1 then 1 else max_detections)\<rparr>"

definition CreateErrorResult :: "string \<Rightarrow> ProcessingResult" where
  "CreateErrorResult msg =
     \<lparr>detections = [], processing_time_ms = 0, success = False, error_message = msg\<rparr>"

definition UpdateStatistics :: "int64 \<Rightarrow> int32 \<Rightarrow> 'st FrameProcessor \<Rightarrow> 'st FrameProcessor" where
  "UpdateStatistics processing_time detections_count p =
     p\<lparr>total_frames_processed := total_frames_processed p + 1,
       total_detections := total_detections p + signed detections_count,
       total_processing_time := total_processing_time p + processing_time\<rparr>"

text \<open>
  The inner loop of \<^verbatim>\<open>ProcessFrame\<close>: a detection is appended while the result holds
  fewer than \<^verbatim>\<open>static_cast<size_t>(max_detections_per_frame_)\<close>, and the first one
  that does not fit ends the loop.
\<close>

fun append_detections :: "nat \<Rightarrow> Detection list \<Rightarrow> Detection list \<Rightarrow> Detection list" where
  "append_detections cap acc [] = acc"
| "append_detections cap acc (d # ds) =
     (if length acc < cap then append_detections cap (acc @ [d]) ds else acc)"

text \<open>
  The outer loop: every detector that is not null is called, in the order of the
  vector, also once the cap is reached. An exception ends the loop; the detectors
  called so far keep their new state.
\<close>

fun run_detectors ::
    "nat \<Rightarrow> Frame \<Rightarrow> 'st Detector option list \<Rightarrow> Detection list
       \<Rightarrow> (string + Detection list) \<times> 'st Detector option list" where
  "run_detectors cap f [] acc = (Inr acc, [])"
| "run_detectors cap f (None # ds) acc =
     (case run_detectors cap f ds acc of (r, ds') \<Rightarrow> (r, None # ds'))"
| "run_detectors cap f (Some d # ds) acc =
     (case Detect f d of
        (Inl w, d') \<Rightarrow> (Inl w, Some d' # ds)
      | (Inr found, d') \<Rightarrow>
          (case run_detectors cap f ds (append_detections cap acc found) of
             (r, ds') \<Rightarrow> (r, Some d' # ds')))"

text \<open>
  \<^verbatim>\<open>ProcessFrame\<close>. \<open>elapsed\<close> is the time between the two clock readings, in
  milliseconds.
\<close>

definition ProcessFrame ::
    "int64 \<Rightarrow> Frame \<Rightarrow> 'st FrameProcessor \<Rightarrow> ProcessingResult \<times> 'st FrameProcessor" where
  "ProcessFrame elapsed frame p =
     (if \<not> initialized p then (CreateErrorResult ''FrameProcessor not initialized'', p)
      else if \<not> FrameProcessor_ValidateFrame frame
        then (CreateErrorResult ''Invalid frame data'', p)
      else
        (case run_detectors (unat (signed (max_detections_per_frame p) :: 64 word)) frame
                (detectors p) [] of
           (r, ds') \<Rightarrow>
             (let result = (case r of
                              Inr found \<Rightarrow> ProcessingResult_default\<lparr>detections := found\<rparr>
                            | Inl w \<Rightarrow> CreateErrorResult (''Processing error: '' @ w));
                  result = result\<lparr>processing_time_ms := elapsed\<rparr>
              in (result,
                  UpdateStatistics elapsed (of_nat (length (detections result)))
                    (p\<lparr>detectors := ds'\<rparr>)))))"

subsection \<open>vision\_service.h: constants, messages, stream state\<close>

definition MAX_CONCURRENT_STREAMS :: nat where "MAX_CONCURRENT_STREAMS = 10"
definition STREAM_TIMEOUT_SEC :: nat where "STREAM_TIMEOUT_SEC = 300"

definition STATUS_SUCCESS :: string where "STATUS_SUCCESS = ''success''"
definition STATUS_ERROR :: string where "STATUS_ERROR = ''error''"
definition STATUS_STARTING :: string where "STATUS_STARTING = ''starting''"
definition STATUS_ACTIVE :: string where "STATUS_ACTIVE = ''active''"
definition STATUS_STOPPING :: string where "STATUS_STOPPING = ''stopping''"
definition STATUS_STOPPED :: string where "STATUS_STOPPED = ''stopped''"
definition HEALTH_HEALTHY :: string where "HEALTH_HEALTHY = ''healthy''"
definition HEALTH_DEGRADED :: string where "HEALTH_DEGRADED = ''degraded''"

text \<open>\<^verbatim>\<open>grpc::Status\<close>: \<^verbatim>\<open>Status::OK\<close>, or an error code with its message.\<close>

datatype StatusCode = INVALID_ARGUMENT

datatype Status = OK | Error StatusCode string

text \<open>
  Modelled from the spec: the request and response messages of \<^verbatim>\<open>vision.pb.h\<close>,
  which is generated and not among the sources; section 6 lists their fields. A handler
  receives an empty response (all strings empty, no statistics) and fills it. The
  requests of the three unary stream calls carry a camera id (and a URL) and are plain
  arguments of the handlers. \<open>fps_actual\<close> is a \<^verbatim>\<open>double\<close>; the model keeps the exact
  quotient.
\<close>

record Response =
  status :: string
  message :: string

record StreamResponse = Response +
  stream_id :: string

record StreamStats =
  st_frames_processed :: int64
  st_detections_count :: int64
  fps_actual :: rat
  uptime_seconds :: int
  last_frame_timestamp :: int

record StatusResponse = Response +
  resp_camera_id :: string
  resp_stats :: "StreamStats option"

record HealthResponse = Response +
  health_active_streams :: int32
  health_uptime_seconds :: int
  version :: string

definition StreamResponse_empty :: StreamResponse where
  "StreamResponse_empty = \<lparr>status = [], message = [], stream_id = []\<rparr>"

definition StopResponse_empty :: Response where
  "StopResponse_empty = \<lparr>status = [], message = []\<rparr>"

definition StatusResponse_empty :: StatusResponse where
  "StatusResponse_empty =
     \<lparr>status = [], message = [], resp_camera_id = [], resp_stats = None\<rparr>"

text \<open>The fields of \<^verbatim>\<open>StreamState\<close> carry the prefix \<open>ss_\<close>.\<close>

record 'st StreamState =
  ss_camera_id :: string
  ss_camera_url :: string
  ss_status :: string
  ss_start_time :: time_point
  ss_frames_processed :: int64
  ss_detections_count :: int64
  ss_camera_manager :: "CameraManager option"
  ss_frame_processor :: "'st FrameProcessor option"

definition StreamState_new :: "env \<Rightarrow> string \<Rightarrow> string \<Rightarrow> 'st StreamState" where
  "StreamState_new e cam_id cam_url =
     \<lparr>ss_camera_id = cam_id, ss_camera_url = cam_url, ss_status = ''starting'',
      ss_start_time = steady_now e, ss_frames_processed = 0, ss_detections_count = 0,
      ss_camera_manager = None, ss_frame_processor = None\<rparr>"

record ServiceMetrics =
  streams_started :: int64
  frames_processed :: int64
  metric_detections :: int64
  metric_total_processing_time :: int64
  processing_samples :: int64

definition IncrementStreamsStarted :: "ServiceMetrics \<Rightarrow> ServiceMetrics" where
  "IncrementStreamsStarted m = m\<lparr>streams_started := streams_started m + 1\<rparr>"

definition IncrementFramesProcessed :: "ServiceMetrics \<Rightarrow> ServiceMetrics" where
  "IncrementFramesProcessed m = m\<lparr>frames_processed := frames_processed m + 1\<rparr>"

text \<open>
  \<^verbatim>\<open>VisionServiceImpl\<close>. \<open>active_streams\<close> is the \<^verbatim>\<open>unordered_map\<close> as a list of
  pairs with distinct keys: \<^verbatim>\<open>find\<close> is \<open>map_of\<close>, \<^verbatim>\<open>size()\<close> is \<open>length\<close>,
  \<^verbatim>\<open>operator[]\<close> with an assignment is \<open>AList.update\<close> and \<^verbatim>\<open>erase\<close> is
  \<open>AList.delete\<close>. \<open>metrics\<close> is the singleton \<^verbatim>\<open>ServiceMetrics::Instance()\<close>. The
  counters of the service carry the prefix \<open>svc_\<close>.
\<close>

record 'st VisionServiceImpl =
  active_streams :: "(string \<times> 'st StreamState) list"
  service_start_time :: time_point
  svc_total_streams_started :: int64
  svc_total_frames_processed :: int64
  svc_total_detections :: int64
  metrics :: ServiceMetrics

definition ServiceMetrics_new :: ServiceMetrics where
  "ServiceMetrics_new =
     \<lparr>streams_started = 0, frames_processed = 0, metric_detections = 0,
      metric_total_processing_time = 0, processing_samples = 0\<rparr>"

definition VisionServiceImpl_new :: "env \<Rightarrow> 'st VisionServiceImpl" where
  "VisionServiceImpl_new e =
     \<lparr>active_streams = [], service_start_time = steady_now e,
      svc_total_streams_started = 0, svc_total_frames_processed = 0,
      svc_total_detections = 0, metrics = ServiceMetrics_new\<rparr>"

subsection \<open>VisionServiceImpl: request validation\<close>

definition VisionService_IsValidCameraUrl :: "(string \<Rightarrow> file_type) \<Rightarrow> string \<Rightarrow> error + bool" where
  "VisionService_IsValidCameraUrl fs url =
     (if url = [] then Inr False else IsValidCameraUrl fs url)"

definition ValidateStreamRequest ::
    "(string \<Rightarrow> file_type) \<Rightarrow> string \<Rightarrow> string \<Rightarrow> error + Status" where
  "ValidateStreamRequest fs camera_id url =
     (if camera_id = [] then Inr (Error INVALID_ARGUMENT ''Camera ID cannot be empty'')
      else if url = [] then Inr (Error INVALID_ARGUMENT ''Camera URL cannot be empty'')
      else and_then (VisionService_IsValidCameraUrl fs url)
             (\<lambda>valid. if \<not> valid
                then Inr (Error INVALID_ARGUMENT ''Invalid camera URL format'')
                else Inr OK))"

definition ValidateStopRequest :: "string \<Rightarrow> Status" where
  "ValidateStopRequest camera_id =
     (if camera_id = [] then Error INVALID_ARGUMENT ''Camera ID cannot be empty'' else OK)"

text \<open>\<^verbatim>\<open>ValidateStatusRequest\<close> is defined by the class; no function calls it.\<close>

definition ValidateStatusRequest :: "string \<Rightarrow> Status" where
  "ValidateStatusRequest camera_id =
     (if camera_id = [] then Error INVALID_ARGUMENT ''Camera ID cannot be empty'' else OK)"

definition GenerateStreamId :: "env \<Rightarrow> string \<Rightarrow> string" where
  "GenerateStreamId e camera_id = camera_id @ ''_'' @ to_string (epoch_ms e)"

subsection \<open>VisionServiceImpl: the handlers\<close>

text \<open>
  Each handler takes \<^verbatim>\<open>streams_mutex_\<close> once and holds it until it returns, so its
  reads and writes of the registry are one step of the model. The \<^verbatim>\<open>catch\<close> of
  \<^verbatim>\<open>StartStream\<close> turns a \<^verbatim>\<open>std::exception\<close> of the block into a response with status
  \<^verbatim>\<open>error\<close>; the validation runs before the \<^verbatim>\<open>try\<close>, and its exception leaves the
  handler.
\<close>

definition internal_error :: "error \<Rightarrow> 'st VisionServiceImpl
    \<Rightarrow> error + Status \<times> StreamResponse \<times> 'st VisionServiceImpl" where
  "internal_error x svc =
     (if is_exception x
      then Inr (OK, \<lparr>status = STATUS_ERROR, message = ''Internal error: '' @ what x,
                     stream_id = []\<rparr>, svc)
      else Inl x)"

definition StartStream :: "env \<Rightarrow> string \<Rightarrow> string \<Rightarrow> 'st VisionServiceImpl
    \<Rightarrow> error + Status \<times> StreamResponse \<times> 'st VisionServiceImpl" where
  "StartStream e camera_id url svc =
     and_then (ValidateStreamRequest (filesystem e) camera_id url)
       (\<lambda>validation_status.
          if validation_status \<noteq> OK then Inr (validation_status, StreamResponse_empty, svc)
          else if map_of (active_streams svc) camera_id \<noteq> None
          then Inr (OK, \<lparr>status = STATUS_ERROR,
                         message = ''Stream already active for camera '' @ camera_id,
                         stream_id = []\<rparr>, svc)
          else if length (active_streams svc) \<ge> MAX_CONCURRENT_STREAMS
          then Inr (OK, \<lparr>status = STATUS_ERROR,
                         message = ''Maximum number of concurrent streams reached'',
                         stream_id = []\<rparr>, svc)
          else
            (case CameraManager_new e url of
               Inl x \<Rightarrow> internal_error x svc
             | Inr cm \<Rightarrow>
                 (case Initialize_default e cm of
                    Inl x \<Rightarrow> internal_error x svc
                  | Inr (initialized_ok, cm1) \<Rightarrow>
                      if \<not> initialized_ok
                      then Inr (OK, \<lparr>status = STATUS_ERROR,
                                     message = ''Failed to initialize camera for '' @ camera_id,
                                     stream_id = []\<rparr>, svc)
                      else
                        (case StartCapture e cm1 of
                           Inl x \<Rightarrow> internal_error x svc
                         | Inr (started, cm2) \<Rightarrow>
                             if \<not> started
                             then Inr (OK, \<lparr>status = STATUS_ERROR,
                                            message = ''Failed to start capture for '' @ camera_id,
                                            stream_id = []\<rparr>, svc)
                             else
                               Inr (OK,
                                    \<lparr>status = STATUS_SUCCESS,
                                     message = ''Stream started successfully'',
                                     stream_id = GenerateStreamId e camera_id\<rparr>,
                                    svc\<lparr>active_streams :=
                                          AList.update camera_id
                                            ((StreamState_new e camera_id url)
                                               \<lparr>ss_status := STATUS_ACTIVE,
                                                ss_camera_manager := Some cm2,
                                                ss_frame_processor := Some FrameProcessor_new\<rparr>)
                                            (active_streams svc),
                                        svc_total_streams_started :=
                                          svc_total_streams_started svc + 1,
                                        metrics := IncrementStreamsStarted (metrics svc)\<rparr>)))))"

text \<open>
  \<^verbatim>\<open>StopStream\<close> marks the entry as stopping, stops its capture (from a handler
  thread, never the worker) and erases it. Erasing the entry destroys the stream state
  and with it the manager.
\<close>

definition StreamState_destroy :: "'st StreamState \<Rightarrow> error + unit" where
  "StreamState_destroy st =
     (case ss_camera_manager st of
        None \<Rightarrow> Inr ()
      | Some cm \<Rightarrow> CameraManager_destroy False cm)"

definition StopStream :: "string \<Rightarrow> 'st VisionServiceImpl
    \<Rightarrow> error + Status \<times> Response \<times> 'st VisionServiceImpl" where
  "StopStream camera_id svc =
     (if ValidateStopRequest camera_id \<noteq> OK
      then Inr (ValidateStopRequest camera_id, StopResponse_empty, svc)
      else case map_of (active_streams svc) camera_id of
             None \<Rightarrow>
               Inr (OK, \<lparr>status = STATUS_ERROR,
                         message = ''No active stream found for camera '' @ camera_id\<rparr>,
                    svc)
           | Some st \<Rightarrow>
               and_then
                 (StreamState_destroy
                    (st\<lparr>ss_status := STATUS_STOPPING,
                        ss_camera_manager :=
                          map_option (\<lambda>cm. snd (StopCapture False cm))
                            (ss_camera_manager st)\<rparr>))
                 (\<lambda>u. Inr (OK,
                            \<lparr>status = STATUS_SUCCESS,
                             message = ''Stream stopped successfully''\<rparr>,
                            svc\<lparr>active_streams :=
                                  AList.delete camera_id (active_streams svc)\<rparr>)))"

text \<open>
  \<^verbatim>\<open>GetStreamStatus\<close> reads the camera id and looks it up; it does not call
  \<^verbatim>\<open>ValidateStatusRequest\<close>. The uptime is the difference of two clock readings cast
  to seconds (a truncation).
\<close>

definition GetStreamStatus :: "env \<Rightarrow> string \<Rightarrow> 'st VisionServiceImpl \<Rightarrow> Status \<times> StatusResponse" where
  "GetStreamStatus e camera_id svc =
     (case map_of (active_streams svc) camera_id of
        None \<Rightarrow>
          (OK, \<lparr>status = STATUS_STOPPED, message = ''No active stream'',
                resp_camera_id = camera_id, resp_stats = None\<rparr>)
      | Some st \<Rightarrow>
          (let uptime = (int (steady_now e) - int (ss_start_time st)) sdiv 1000000000;
               fps = (if uptime > 0
                      then of_int (sint (ss_frames_processed st)) / of_int uptime else 0)
           in (OK, \<lparr>status = ss_status st, message = ''Stream active'',
                     resp_camera_id = camera_id,
                     resp_stats = Some
                       \<lparr>st_frames_processed = ss_frames_processed st,
                        st_detections_count = ss_detections_count st,
                        fps_actual = fps, uptime_seconds = uptime,
                        last_frame_timestamp = int (steady_now e) sdiv 1000000000\<rparr>\<rparr>)))"

definition GetServiceVersion :: string where
  "GetServiceVersion = ''1.0.0-phase2.1''"

text \<open>\<^verbatim>\<open>count >= MAX_CONCURRENT_STREAMS * 0.9\<close> compares with the double 9.\<close>

definition GetHealth :: "env \<Rightarrow> 'st VisionServiceImpl \<Rightarrow> Status \<times> HealthResponse" where
  "GetHealth e svc =
     (let uptime = (int (steady_now e) - int (service_start_time svc)) sdiv 1000000000;
          count = (of_nat (length (active_streams svc)) :: int32);
          in_error = list_ex (\<lambda>(k, st). ss_status st = ''error'') (active_streams svc);
          near_cap = (sint count \<ge> 9)
      in (OK,
          \<lparr>status = (if near_cap \<or> in_error then HEALTH_DEGRADED else HEALTH_HEALTHY),
           message = (if near_cap then ''Approaching maximum concurrent streams''
                      else if in_error then ''One or more streams in error state''
                      else ''Service is healthy''),
           health_active_streams = count, health_uptime_seconds = uptime,
           version = GetServiceVersion\<rparr>))"

definition GetActiveStreamsCount :: "'st VisionServiceImpl \<Rightarrow> int32" where
  "GetActiveStreamsCount svc = of_nat (length (active_streams svc))"

text \<open>
  One message of \<^verbatim>\<open>ProcessFrames\<close> whose response was written: both frame counters
  go up by one. The registry is not touched.
\<close>

definition ProcessFrames_step :: "'st VisionServiceImpl \<Rightarrow> 'st VisionServiceImpl" where
  "ProcessFrames_step svc =
     svc\<lparr>svc_total_frames_processed := svc_total_frames_processed svc + 1,
         metrics := IncrementFramesProcessed (metrics svc)\<rparr>"

text \<open>
  The states of the service that its life can reach: the constructor, then any
  sequence of handler calls that return, frames processed, and turns of the capture
  loops of the registered managers (a worker changes the manager of its own entry and
  nothing else; after a turn that breaks, the loop ends and clears
  \<^verbatim>\<open>is_capturing_\<close>).
\<close>

inductive reachable :: "'st VisionServiceImpl \<Rightarrow> bool" where
  constructed: "reachable (VisionServiceImpl_new e)"
| start: "reachable svc \<Longrightarrow> StartStream e camera_id url svc = Inr (st, resp, svc')
          \<Longrightarrow> reachable svc'"
| stop: "reachable svc \<Longrightarrow> StopStream camera_id svc = Inr (st, resp', svc')
         \<Longrightarrow> reachable svc'"
| frame: "reachable svc \<Longrightarrow> reachable (ProcessFrames_step svc)"
| worker: "reachable svc \<Longrightarrow> map_of (active_streams svc) camera_id = Some entry
          \<Longrightarrow> ss_camera_manager entry = Some cm
          \<Longrightarrow> CaptureLoop_body e captured cm = Inr (left, cm')
          \<Longrightarrow> reachable (svc\<lparr>active_streams :=
                 AList.update camera_id
                   (entry\<lparr>ss_camera_manager :=
                            Some (if left then cm'\<lparr>is_capturing := False\<rparr> else cm')\<rparr>)
                   (active_streams svc)\<rparr>)"

subsection \<open>Concrete inputs\<close>

text \<open>
  A build without OpenCV on a machine with an empty file system, where threads start.
\<close>

definition env0 :: env where
  "env0 = \<lparr>filesystem = (\<lambda>p. FT_not_found), have_opencv = False,
           cv_open = (\<lambda>u. Inr False), webcam_index = (\<lambda>u. Some 0),
           cv_open_index = (\<lambda>i. Inr False), thread_start = None,
           steady_now = 0, epoch_ms = 0\<rparr>"

text \<open>
  The manager of \<^verbatim>\<open>test://pattern\<close> after its constructor, \<^verbatim>\<open>Initialize()\<close> and a
  first \<^verbatim>\<open>StartCapture()\<close> in \<open>env0\<close>.
\<close>

definition cam_capturing :: CameraManager where
  "cam_capturing =
     \<lparr>camera_url = ''test://pattern'', camera_type = TEST_PATTERN,
      config = CameraConfig_default, state = CAPTURING, stats = CameraStats_new 0,
      last_error = [], capture_thread = True, should_stop = False, is_capturing = True,
      frame_callback = False, reconnect_attempts = 0,
      events = [State_set INITIALIZING, State_set READY, Worker_spawned,
                State_set CAPTURING]\<rparr>"

text \<open>
  A configuration of width and height -1 without reconnection; \<^verbatim>\<open>SetConfig\<close>
  accepts it without a check. The pattern generator built for it returns colour bars
  of three bytes (\<^verbatim>\<open>size_t(-1) * size_t(-1) * 3\<close> is 3 modulo \<open>2 ^ 64\<close>) with width
  and height -1.
\<close>

definition config_negative :: CameraConfig where
  "config_negative =
     CameraConfig_default\<lparr>cfg_width := - 1, cfg_height := - 1, auto_reconnect := False\<rparr>"

definition frame_negative :: Frame where
  "frame_negative = \<lparr>data = [0, 0, 0], width = - 1, height = - 1, format = ''bgr'',
                     timestamp = 0\<rparr>"

text \<open>The capturing manager with a frame callback and that configuration.\<close>

definition cam_no_reconnect :: CameraManager where
  "cam_no_reconnect = SetConfig config_negative (SetFrameCallback cam_capturing)"

text \<open>The manager of \<^verbatim>\<open>test://pattern\<close> right after its constructor in \<open>env0\<close>.\<close>

definition cam_fresh :: CameraManager where
  "cam_fresh =
     \<lparr>camera_url = ''test://pattern'', camera_type = TEST_PATTERN,
      config = CameraConfig_default, state = UNINITIALIZED, stats = CameraStats_new 0,
      last_error = [], capture_thread = False, should_stop = False, is_capturing = False,
      frame_callback = False, reconnect_attempts = 0, events = []\<rparr>"

text \<open>A configuration whose width times height is \<open>2 ^ 32\<close>.\<close>

definition config_overflow :: CameraConfig where
  "config_overflow = CameraConfig_default\<lparr>cfg_width := 65536, cfg_height := 65536\<rparr>"

text \<open>The capturing manager after three reconnect attempts, the default maximum.\<close>

definition cam_exhausted :: CameraManager where
  "cam_exhausted = cam_capturing\<lparr>reconnect_attempts := 3\<rparr>"

text \<open>
  What the detectors of a processor return for a frame, one after the other in the
  order of the vector (up to the first one that throws).
\<close>

fun detector_outputs :: "Frame \<Rightarrow> 'st Detector option list \<Rightarrow> Detection list" where
  "detector_outputs f [] = []"
| "detector_outputs f (None # ds) = detector_outputs f ds"
| "detector_outputs f (Some d # ds) =
     (case fst (Detect f d) of
        Inl w \<Rightarrow> []
      | Inr found \<Rightarrow> found @ detector_outputs f ds)"

text \<open>
  The processors that the public functions of \<^verbatim>\<open>FrameProcessor\<close> can produce from a
  newly constructed one.
\<close>

inductive fp_reachable :: "'st FrameProcessor \<Rightarrow> bool" where
  constructed: "fp_reachable FrameProcessor_new"
| initialize: "fp_reachable p \<Longrightarrow> fp_reachable (snd (FrameProcessor_Initialize ds p))"
| cleanup: "fp_reachable p \<Longrightarrow> fp_reachable (FrameProcessor_Cleanup p)"
| add: "fp_reachable p \<Longrightarrow> fp_reachable (AddDetector d p)"
| remove: "fp_reachable p \<Longrightarrow> fp_reachable (RemoveDetector n p)"
| set_area: "fp_reachable p \<Longrightarrow> fp_reachable (SetMinDetectionArea a p)"
| set_max: "fp_reachable p \<Longrightarrow> fp_reachable (SetMaxDetectionsPerFrame k p)"
| process: "fp_reachable p \<Longrightarrow> fp_reachable (snd (ProcessFrame t f p))"

text \<open>A detector without state that reports the same three detections for every frame.\<close>

definition det_n :: "nat \<Rightarrow> Detection" where
  "det_n n =
     \<lparr>det_id = to_string n, det_type = ''test'', confidence = 1, det_timestamp = 0,
      bbox = \<lparr>box_x = 0, box_y = 0, box_width = 1, box_height = 1\<rparr>, metadata = []\<rparr>"

definition three_detections :: "unit CustomDetector" where
  "three_detections =
     \<lparr>impl_state = (),
      impl_Detect = (\<lambda>f st. (Inr [det_n 1, det_n 2, det_n 3], st)),
      impl_GetName = (\<lambda>st. ''three''),
      impl_Initialize = (\<lambda>st. (True, st)),
      impl_Cleanup = (\<lambda>st. st)\<rparr>"

definition draws0 :: "nat \<Rightarrow> draw" where
  "draws0 n =
     \<lparr>below_threshold = True, drawn_confidence = 1, drawn_confidence_str = ''1.000000'',
      now_us = 0, now_ms = 0\<rparr>"

text \<open>
  A processor with a cap of two detections, the detector above and, after
  \<^verbatim>\<open>Initialize\<close>, the motion detector.
\<close>

definition fp_capped :: "unit FrameProcessor" where
  "fp_capped =
     snd (FrameProcessor_Initialize draws0
            (AddDetector (Some (Custom three_detections))
               (SetMaxDetectionsPerFrame 2 FrameProcessor_new)))"

text \<open>A gray frame of 32 by 32 with all its 1024 bytes.\<close>

definition frame_gray32 :: Frame where
  "frame_gray32 =
     \<lparr>data = replicate 1024 0, width = 32, height = 32, format = ''gray'', timestamp = 0\<rparr>"

text \<open>A frame of 4096 by 4096 in a format the code does not know, with one byte.\<close>

definition frame_yuv :: Frame where
  "frame_yuv = \<lparr>data = [0], width = 4096, height = 4096, format = ''yuv'', timestamp = 0\<rparr>"

text \<open>\<^verbatim>\<open>StartStream\<close> for each camera id of a list, on \<^verbatim>\<open>test://pattern\<close>.\<close>

fun start_many :: "env \<Rightarrow> string list \<Rightarrow> 'st VisionServiceImpl \<Rightarrow> 'st VisionServiceImpl" where
  "start_many e [] svc = svc"
| "start_many e (camera_id # ids) svc =
     (case StartStream e camera_id ''test://pattern'' svc of
        Inl x \<Rightarrow> svc
      | Inr (st, resp, svc') \<Rightarrow> start_many e ids svc')"

text \<open>The service after ten streams have been started in \<open>env0\<close>.\<close>

definition svc_full :: "unit VisionServiceImpl" where
  "svc_full =
     start_many env0
       [''cam0'', ''cam1'', ''cam2'', ''cam3'', ''cam4'', ''cam5'', ''cam6'', ''cam7'',
        ''cam8'', ''cam9'']
       (VisionServiceImpl_new env0)"

text \<open>The entry that \<^verbatim>\<open>StartStream\<close> registers for a test pattern in \<open>env0\<close>.\<close>

definition test_entry :: "string \<Rightarrow> unit StreamState" where
  "test_entry camera_id =
     \<lparr>ss_camera_id = camera_id, ss_camera_url = ''test://pattern'',
      ss_status = STATUS_ACTIVE, ss_start_time = 0, ss_frames_processed = 0,
      ss_detections_count = 0, ss_camera_manager = Some cam_capturing,
      ss_frame_processor = Some FrameProcessor_new\<rparr>"

section \<open>Properties\<close>

subsection \<open>URL classification\<close>

lemma find_at_0_prefix: "find_at_0 url p = prefix p url"
  unfolding find_at_0_def
  by (metis append_take_drop_id prefix_def append_eq_conv_conj prefixE)

lemma compare_tail_suffix: "compare_tail url ext = suffix ext url"
proof
  assume "compare_tail url ext"
  then have "drop (length url - length ext) url = ext"
    by (simp add: compare_tail_def)
  then show "suffix ext url"
    by (metis suffix_drop)
next
  assume "suffix ext url"
  then obtain zs where "url = zs @ ext"
    by (auto simp: suffix_def)
  then show "compare_tail url ext"
    by (simp add: compare_tail_def)
qed

text \<open>
  C3 (as the code has it). The rules are tried in the fixed order and the first match
  decides: empty, \<^verbatim>\<open>test://\<close>, the stream prefixes, the HTTP prefixes, the webcam
  prefixes, the video suffixes. A URL that matches none of them is \<open>FILE_VIDEO\<close> when
  it names an existing file system entry of any type, regular file or not, and
  \<open>UNKNOWN\<close> when it names nothing; when the status of the path cannot be determined
  the call raises. The five examples of the specification hold in every file system.
\<close>

theorem DetectCameraType_first_match:
  "DetectCameraType fs url =
     (if url = [] then Inr UNKNOWN
      else if prefix ''test://'' url then Inr TEST_PATTERN
      else if prefix ''rtsp://'' url \<or> prefix ''rtmp://'' url \<or> prefix ''rtp://'' url
        then Inr RTSP_STREAM
      else if prefix ''http://'' url \<or> prefix ''https://'' url then Inr HTTP_STREAM
      else if prefix ''/dev/video'' url \<or> prefix ''/dev/v4l/by-id/'' url then Inr WEBCAM
      else if suffix ''.mp4'' url \<or> suffix ''.avi'' url \<or> suffix ''.mov'' url
           \<or> suffix ''.mkv'' url \<or> suffix ''.wmv'' url \<or> suffix ''.flv'' url
           \<or> suffix ''.webm'' url
        then Inr FILE_VIDEO
      else if fs url = FT_none then Inl Filesystem_error
      else if fs url = FT_not_found then Inr UNKNOWN
      else Inr FILE_VIDEO)
   \<and> DetectCameraType fs ''rtsp://x/y'' = Inr RTSP_STREAM
   \<and> DetectCameraType fs ''/dev/video2'' = Inr WEBCAM
   \<and> DetectCameraType fs ''movie.mp4'' = Inr FILE_VIDEO
   \<and> DetectCameraType fs '''' = Inr UNKNOWN
   \<and> DetectCameraType fs ''test://pattern'' = Inr TEST_PATTERN"
proof -
  have general: "DetectCameraType fs url =
     (if url = [] then Inr UNKNOWN
      else if prefix ''test://'' url then Inr TEST_PATTERN
      else if prefix ''rtsp://'' url \<or> prefix ''rtmp://'' url \<or> prefix ''rtp://'' url
        then Inr RTSP_STREAM
      else if prefix ''http://'' url \<or> prefix ''https://'' url then Inr HTTP_STREAM
      else if prefix ''/dev/video'' url \<or> prefix ''/dev/v4l/by-id/'' url then Inr WEBCAM
      else if suffix ''.mp4'' url \<or> suffix ''.avi'' url \<or> suffix ''.mov'' url
           \<or> suffix ''.mkv'' url \<or> suffix ''.wmv'' url \<or> suffix ''.flv'' url
           \<or> suffix ''.webm'' url
        then Inr FILE_VIDEO
      else if fs url = FT_none then Inl Filesystem_error
      else if fs url = FT_not_found then Inr UNKNOWN
      else Inr FILE_VIDEO)" for url
    unfolding DetectCameraType_def RTSP_PREFIXES_def HTTP_PREFIXES_def
      WEBCAM_PATTERNS_def SUPPORTED_VIDEO_FORMATS_def
    by (cases "fs url")
       (auto simp: find_at_0_prefix compare_tail_suffix fs_exists_def and_then_def)
  have ex: "DetectCameraType fs ''rtsp://x/y'' = Inr RTSP_STREAM"
    "DetectCameraType fs ''/dev/video2'' = Inr WEBCAM"
    "DetectCameraType fs ''movie.mp4'' = Inr FILE_VIDEO"
    "DetectCameraType fs '''' = Inr UNKNOWN"
    "DetectCameraType fs ''test://pattern'' = Inr TEST_PATTERN"
    by (simp_all add: general suffix_to_prefix)
  from general ex show ?thesis by blast
qed

theorem DetectCameraType_directory_counterexample:
  "fs_tmp_dir ''/tmp'' \<noteq> FT_regular
   \<and> ClassifyUrl_spec fs_tmp_dir ''/tmp'' = UNKNOWN
   \<and> DetectCameraType fs_tmp_dir ''/tmp'' = Inr FILE_VIDEO"
  by (simp add: DetectCameraType_def find_at_0_def compare_tail_def fs_exists_def
      and_then_def RTSP_PREFIXES_def HTTP_PREFIXES_def WEBCAM_PATTERNS_def
      SUPPORTED_VIDEO_FORMATS_def fs_tmp_dir_def ClassifyUrl_spec_def suffix_to_prefix)

subsection \<open>CameraManager::Initialize\<close>

lemma int_div_less_iff:
  fixes M h w :: int
  assumes "0 < h"
  shows "(M div h < w) = (M < w * h)"
proof
  define q r where "q = M div h" and "r = M mod h"
  have eq: "M = q * h + r" and r: "r < h"
    using assms by (simp_all add: q_def r_def)
  assume "M div h < w"
  then have "q + 1 \<le> w" by (simp add: q_def)
  then have "(q + 1) * h \<le> w * h"
    using assms by (simp only: mult_right_mono less_imp_le)
  then have "q * h + h \<le> w * h" by (simp add: algebra_simps)
  with eq r show "M < w * h" by linarith
next
  define q r where "q = M div h" and "r = M mod h"
  have eq: "M = q * h + r" and r: "0 \<le> r"
    using assms by (simp_all add: q_def r_def)
  assume lt: "M < w * h"
  show "M div h < w"
  proof (rule ccontr)
    assume "\<not> M div h < w"
    then have "w \<le> q" by (simp add: q_def)
    then have "w * h \<le> q * h"
      using assms by (simp only: mult_right_mono less_imp_le)
    with eq r lt show False by linarith
  qed
qed

text \<open>
  The test of the code, \<^verbatim>\<open>width > INT_MAX / height\<close> after the sign tests, says that
  the exact product of width and height does not fit a signed 32-bit integer.
\<close>

lemma config_check_iff:
  fixes w h f :: "32 word"
  shows "(sint w \<le> 0 \<or> sint h \<le> 0 \<or> sint f \<le> 0 \<or> sint w > 2147483647 div sint h)
       = (sint w \<le> 0 \<or> sint h \<le> 0 \<or> sint f \<le> 0
          \<or> sint w * sint h > 2147483647 \<or> sint w * sint h < - 2147483648)"
proof (cases "0 < sint w \<and> 0 < sint h")
  case True
  define p where "p = sint w * sint h"
  have "0 \<le> p" using True by (simp add: p_def)
  moreover have "(2147483647 div sint h < sint w) = (2147483647 < p)"
    using True int_div_less_iff [of "sint h" 2147483647 "sint w"] by (simp add: p_def)
  ultimately show ?thesis
    using True unfolding p_def [symmetric] by auto
next
  case False
  then show ?thesis by auto
qed

lemma backend_init_success:
  "backend_init e s = Inr (True, s') \<Longrightarrow> s' = s"
  by (auto simp: backend_init_def InitializeFileCapture_def InitializeWebcamCapture_def
      InitializeRtspCapture_def InitializeTestPattern_def SetError_def and_then_def
      split: CameraType.splits if_splits sum.splits option.splits)

lemma Initialize_invalid:
  assumes "sint (cfg_width c) \<le> 0 \<or> sint (cfg_height c) \<le> 0 \<or> sint (cfg_fps c) \<le> 0
     \<or> sint (cfg_width c) * sint (cfg_height c) > 2147483647
     \<or> sint (cfg_width c) * sint (cfg_height c) < - 2147483648"
  shows "Initialize e c s =
     Inr (False, SetState ERROR (s\<lparr>last_error := ''Invalid configuration parameters''\<rparr>))"
proof -
  from assms have "sint (cfg_width c) \<le> 0 \<or> sint (cfg_height c) \<le> 0 \<or> sint (cfg_fps c) \<le> 0
     \<or> sint (cfg_width c) > 2147483647 div sint (cfg_height c)"
    by (simp only: config_check_iff)
  then show ?thesis
    by (simp add: Initialize_def SetError_def and_then_def)
qed

lemma Initialize_valid:
  assumes "0 < sint (cfg_width c)" "0 < sint (cfg_height c)" "0 < sint (cfg_fps c)"
    and "sint (cfg_width c) * sint (cfg_height c) \<le> 2147483647"
    and "state s = UNINITIALIZED"
    and "backend_init e ((SetState INITIALIZING s)\<lparr>config := c\<rparr>) = Inr (True, s2)"
  shows "Initialize e c s =
     Inr (True, (SetState READY ((SetState INITIALIZING s)\<lparr>config := c\<rparr>))
                  \<lparr>stats := (stats s)\<lparr>start_time := steady_now e\<rparr>\<rparr>)"
proof -
  define p where "p = sint (cfg_width c) * sint (cfg_height c)"
  have "0 \<le> p" using assms(1,2) by (simp add: p_def)
  then have "\<not> (p > 2147483647 \<or> p < - 2147483648)"
    using assms(4) by (simp add: p_def)
  then have "\<not> (sint (cfg_width c) \<le> 0 \<or> sint (cfg_height c) \<le> 0 \<or> sint (cfg_fps c) \<le> 0
     \<or> sint (cfg_width c) > 2147483647 div sint (cfg_height c))"
    using assms(1-3) unfolding config_check_iff p_def by simp
  moreover have "s2 = (SetState INITIALIZING s)\<lparr>config := c\<rparr>"
    using assms(6) by (rule backend_init_success)
  ultimately show ?thesis
    using assms(5,6)
    by (simp add: Initialize_def and_then_def SetState_def log_def)
qed

text \<open>
  C7. A configuration with a width, height or frame rate that is not positive, or whose
  exact product of width and height does not fit a signed 32-bit integer, makes
  \<^verbatim>\<open>Initialize\<close> return \<^verbatim>\<open>false\<close>, with the last error recorded and the state
  \<open>ERROR\<close>, whatever the state was. A valid configuration on an \<open>UNINITIALIZED\<close>
  manager whose backend initialisation succeeds makes it return \<^verbatim>\<open>true\<close>; the state
  goes to \<open>INITIALIZING\<close> and then to \<open>READY\<close>, and the start time is the clock's
  reading.
\<close>

theorem Initialize_checks_config:
  "(sint (cfg_width c) \<le> 0 \<or> sint (cfg_height c) \<le> 0 \<or> sint (cfg_fps c) \<le> 0
      \<or> sint (cfg_width c) * sint (cfg_height c) > 2147483647
      \<or> sint (cfg_width c) * sint (cfg_height c) < - 2147483648
    \<longrightarrow> (\<exists>s'. Initialize e c s = Inr (False, s') \<and> state s' = ERROR
              \<and> last_error s' = ''Invalid configuration parameters''
              \<and> events s' = events s @ [State_set ERROR]))
   \<and> (0 < sint (cfg_width c) \<and> 0 < sint (cfg_height c) \<and> 0 < sint (cfg_fps c)
      \<and> sint (cfg_width c) * sint (cfg_height c) \<le> 2147483647
      \<and> state s = UNINITIALIZED
      \<and> backend_init e ((SetState INITIALIZING s)\<lparr>config := c\<rparr>) = Inr (True, s2)
    \<longrightarrow> (\<exists>s'. Initialize e c s = Inr (True, s') \<and> state s' = READY
              \<and> events s' = events s @ [State_set INITIALIZING, State_set READY]
              \<and> start_time (stats s') = steady_now e
              \<and> config s' = c))"
proof (intro conjI impI)
  assume "sint (cfg_width c) \<le> 0 \<or> sint (cfg_height c) \<le> 0 \<or> sint (cfg_fps c) \<le> 0
      \<or> sint (cfg_width c) * sint (cfg_height c) > 2147483647
      \<or> sint (cfg_width c) * sint (cfg_height c) < - 2147483648"
  then have "Initialize e c s =
     Inr (False, SetState ERROR (s\<lparr>last_error := ''Invalid configuration parameters''\<rparr>))"
    by (rule Initialize_invalid)
  then show "\<exists>s'. Initialize e c s = Inr (False, s') \<and> state s' = ERROR
      \<and> last_error s' = ''Invalid configuration parameters''
      \<and> events s' = events s @ [State_set ERROR]"
    by (simp add: SetState_def log_def)
next
  assume a: "0 < sint (cfg_width c) \<and> 0 < sint (cfg_height c) \<and> 0 < sint (cfg_fps c)
      \<and> sint (cfg_width c) * sint (cfg_height c) \<le> 2147483647
      \<and> state s = UNINITIALIZED
      \<and> backend_init e ((SetState INITIALIZING s)\<lparr>config := c\<rparr>) = Inr (True, s2)"
  then have "Initialize e c s =
     Inr (True, (SetState READY ((SetState INITIALIZING s)\<lparr>config := c\<rparr>))
                  \<lparr>stats := (stats s)\<lparr>start_time := steady_now e\<rparr>\<rparr>)"
    by (intro Initialize_valid) simp_all
  then show "\<exists>s'. Initialize e c s = Inr (True, s') \<and> state s' = READY
      \<and> events s' = events s @ [State_set INITIALIZING, State_set READY]
      \<and> start_time (stats s') = steady_now e \<and> config s' = c"
    by (simp add: SetState_def log_def)
qed

theorem Initialize_checks_config_witness:
  "(\<exists>s'. Initialize env0 config_overflow cam_capturing = Inr (False, s')
         \<and> state s' = ERROR
         \<and> last_error s' = ''Invalid configuration parameters''
         \<and> events s' = events cam_capturing @ [State_set ERROR])
   \<and> (\<exists>s'. Initialize env0 CameraConfig_default cam_fresh = Inr (True, s')
         \<and> state s' = READY
         \<and> events s' = events cam_fresh @ [State_set INITIALIZING, State_set READY]
         \<and> start_time (stats s') = steady_now env0
         \<and> config s' = CameraConfig_default)"
proof -
  have bad: "sint (cfg_width config_overflow) * sint (cfg_height config_overflow) > 2147483647"
    by (simp add: config_overflow_def CameraConfig_default_def)
  have good: "0 < sint (cfg_width CameraConfig_default)
      \<and> 0 < sint (cfg_height CameraConfig_default) \<and> 0 < sint (cfg_fps CameraConfig_default)
      \<and> sint (cfg_width CameraConfig_default) * sint (cfg_height CameraConfig_default)
          \<le> 2147483647
      \<and> state cam_fresh = UNINITIALIZED
      \<and> backend_init env0 ((SetState INITIALIZING cam_fresh)\<lparr>config := CameraConfig_default\<rparr>)
          = Inr (True, (SetState INITIALIZING cam_fresh)\<lparr>config := CameraConfig_default\<rparr>)"
    by (simp add: CameraConfig_default_def cam_fresh_def backend_init_def
        InitializeTestPattern_def SetState_def log_def)
  from bad good
    Initialize_checks_config [of config_overflow env0 cam_capturing]
    Initialize_checks_config [of CameraConfig_default env0 cam_fresh
      "(SetState INITIALIZING cam_fresh)\<lparr>config := CameraConfig_default\<rparr>"]
  show ?thesis by blast
qed

subsection \<open>CameraManager::StartCapture\<close>

lemma StartCapture_not_ready:
  "state s \<noteq> READY \<Longrightarrow> StartCapture e s = Inl Relock"
  by (simp add: StartCapture_def SetError_def and_then_def)

text \<open>
  C1 (the code at the failing input). The constructor, \<^verbatim>\<open>Initialize()\<close> and a first
  \<^verbatim>\<open>StartCapture()\<close> on \<^verbatim>\<open>test://pattern\<close> succeed and leave the manager capturing,
  with one worker thread. A second \<^verbatim>\<open>StartCapture()\<close> finds the state different from
  \<open>READY\<close> and calls \<^verbatim>\<open>SetError\<close> under the lock it holds: it does not return
  success, and the branch that answers \<^verbatim>\<open>true\<close> for a manager that is already
  capturing is not reached.
\<close>

theorem StartCapture_twice:
  "and_then (CameraManager_new env0 ''test://pattern'')
     (\<lambda>s0. and_then (Initialize_default env0 s0) (\<lambda>(ok, s1). StartCapture env0 s1))
     = Inr (True, cam_capturing)
   \<and> state cam_capturing = CAPTURING
   \<and> is_capturing cam_capturing
   \<and> capture_thread cam_capturing
   \<and> StartCapture env0 cam_capturing = Inl Relock"
proof -
  have "and_then (CameraManager_new env0 ''test://pattern'')
     (\<lambda>s0. and_then (Initialize_default env0 s0) (\<lambda>(ok, s1). StartCapture env0 s1))
     = Inr (True, cam_capturing)"
    by (simp add: CameraManager_new_def DetectCameraType_def find_at_0_def and_then_def
        env0_def Initialize_default_def Initialize_def CameraConfig_default_def
        SetState_def log_def backend_init_def InitializeTestPattern_def StartCapture_def
        cam_capturing_def CameraStats_new_def)
  moreover have "state cam_capturing = CAPTURING" "is_capturing cam_capturing"
    "capture_thread cam_capturing"
    by (simp_all add: cam_capturing_def)
  moreover have "StartCapture env0 cam_capturing = Inl Relock"
    by (rule StartCapture_not_ready) (simp add: cam_capturing_def)
  ultimately show ?thesis by blast
qed

subsection \<open>CameraManager::AttemptReconnect\<close>

lemma AttemptReconnect_exhausted:
  "sint (max_reconnect_attempts (config s)) \<le> sint (reconnect_attempts s) \<Longrightarrow>
   AttemptReconnect s =
     Inr (SetState ERROR (s\<lparr>last_error := ''Maximum reconnect attempts exceeded''\<rparr>))"
  by (subst AttemptReconnect.simps) (simp add: SetError_def and_then_def)

lemma AttemptReconnect_retry:
  "sint (reconnect_attempts s) < sint (max_reconnect_attempts (config s)) \<Longrightarrow>
   AttemptReconnect s =
     Inr (log (Attempts_set 0)
           ((SetState CAPTURING (snd (InitializeCapture (reconnect_prologue s))))
              \<lparr>reconnect_attempts := 0\<rparr>))"
  by (subst AttemptReconnect.simps) (simp add: InitializeCapture_def)

lemma sint_increment:
  fixes a m :: "32 word"
  assumes "sint a < sint m"
  shows "sint (a + 1) = sint a + 1"
proof -
  have "sint m \<le> 2147483647" using sint_lt [of m] by simp
  with assms have "sint a + 1 < 2147483648" by simp
  moreover have "- 2147483648 \<le> sint a + 1" using sint_ge [of a] by simp
  ultimately show ?thesis
    by (simp add: sint_word_ariths signed_take_bit_int_eq_self)
qed

text \<open>
  C6. With the attempts used up, \<^verbatim>\<open>AttemptReconnect\<close> records
  \<^verbatim>\<open>Maximum reconnect attempts exceeded\<close> and sets the state \<open>ERROR\<close>; both counters
  keep their values. With attempts left, it sets \<open>RECONNECTING\<close>, increments
  \<^verbatim>\<open>reconnect_attempts_\<close> (without wrap-around) and \<^verbatim>\<open>stats_.reconnect_count\<close>,
  sleeps, runs \<^verbatim>\<open>InitializeCapture\<close> (which stores 0 in the attempt counter and
  succeeds), sets \<open>CAPTURING\<close> and stores 0 in the attempt counter, in this order.
\<close>

theorem AttemptReconnect_cases:
  "(sint (max_reconnect_attempts (config s)) \<le> sint (reconnect_attempts s)
    \<longrightarrow> (\<exists>s'. AttemptReconnect s = Inr s' \<and> state s' = ERROR
              \<and> last_error s' = ''Maximum reconnect attempts exceeded''
              \<and> reconnect_attempts s' = reconnect_attempts s
              \<and> reconnect_count (stats s') = reconnect_count (stats s)
              \<and> events s' = events s @ [State_set ERROR]))
   \<and> (sint (reconnect_attempts s) < sint (max_reconnect_attempts (config s))
    \<longrightarrow> (\<exists>s'. AttemptReconnect s = Inr s' \<and> state s' = CAPTURING
              \<and> reconnect_attempts s' = 0
              \<and> reconnect_count (stats s') = reconnect_count (stats s) + 1
              \<and> sint (reconnect_attempts s + 1) = sint (reconnect_attempts s) + 1
              \<and> events s' = events s @
                  [State_set RECONNECTING,
                   Attempts_set (reconnect_attempts s + 1),
                   Reconnect_count_set (reconnect_count (stats s) + 1),
                   Sleep_ms (sint (reconnect_delay_ms (config s))),
                   Attempts_set 0,
                   State_set CAPTURING,
                   Attempts_set 0]))"
proof (intro conjI impI)
  assume "sint (max_reconnect_attempts (config s)) \<le> sint (reconnect_attempts s)"
  then have "AttemptReconnect s =
     Inr (SetState ERROR (s\<lparr>last_error := ''Maximum reconnect attempts exceeded''\<rparr>))"
    by (rule AttemptReconnect_exhausted)
  then show "\<exists>s'. AttemptReconnect s = Inr s' \<and> state s' = ERROR
      \<and> last_error s' = ''Maximum reconnect attempts exceeded''
      \<and> reconnect_attempts s' = reconnect_attempts s
      \<and> reconnect_count (stats s') = reconnect_count (stats s)
      \<and> events s' = events s @ [State_set ERROR]"
    by (simp add: SetState_def log_def)
next
  assume lt: "sint (reconnect_attempts s) < sint (max_reconnect_attempts (config s))"
  then have "AttemptReconnect s =
     Inr (log (Attempts_set 0)
           ((SetState CAPTURING (snd (InitializeCapture (reconnect_prologue s))))
              \<lparr>reconnect_attempts := 0\<rparr>))"
    by (rule AttemptReconnect_retry)
  moreover have "sint (reconnect_attempts s + 1) = sint (reconnect_attempts s) + 1"
    using lt by (rule sint_increment)
  ultimately show "\<exists>s'. AttemptReconnect s = Inr s' \<and> state s' = CAPTURING
      \<and> reconnect_attempts s' = 0
      \<and> reconnect_count (stats s') = reconnect_count (stats s) + 1
      \<and> sint (reconnect_attempts s + 1) = sint (reconnect_attempts s) + 1
      \<and> events s' = events s @
          [State_set RECONNECTING,
           Attempts_set (reconnect_attempts s + 1),
           Reconnect_count_set (reconnect_count (stats s) + 1),
           Sleep_ms (sint (reconnect_delay_ms (config s))),
           Attempts_set 0,
           State_set CAPTURING,
           Attempts_set 0]"
    by (simp add: SetState_def log_def InitializeCapture_def reconnect_prologue_def Let_def)
qed

theorem AttemptReconnect_cases_witness:
  "(\<exists>s'. AttemptReconnect cam_exhausted = Inr s' \<and> state s' = ERROR
         \<and> last_error s' = ''Maximum reconnect attempts exceeded''
         \<and> reconnect_attempts s' = 3
         \<and> reconnect_count (stats s') = 0)
   \<and> (\<exists>s'. AttemptReconnect cam_capturing = Inr s' \<and> state s' = CAPTURING
         \<and> reconnect_attempts s' = 0
         \<and> reconnect_count (stats s') = 1
         \<and> events s' = events cam_capturing @
             [State_set RECONNECTING, Attempts_set 1, Reconnect_count_set 1,
              Sleep_ms 5000, Attempts_set 0, State_set CAPTURING, Attempts_set 0])"
proof -
  have full: "sint (max_reconnect_attempts (config cam_exhausted))
      \<le> sint (reconnect_attempts cam_exhausted)"
    by (simp add: cam_exhausted_def cam_capturing_def CameraConfig_default_def)
  have left: "sint (reconnect_attempts cam_capturing)
      < sint (max_reconnect_attempts (config cam_capturing))"
    by (simp add: cam_capturing_def CameraConfig_default_def)
  have vals: "reconnect_attempts cam_exhausted = 3"
    "reconnect_count (stats cam_exhausted) = 0"
    "reconnect_attempts cam_capturing = 0"
    "reconnect_count (stats cam_capturing) = 0"
    "sint (reconnect_delay_ms (config cam_capturing)) = 5000"
    by (simp_all add: cam_exhausted_def cam_capturing_def CameraConfig_default_def
        CameraStats_new_def)
  from full left AttemptReconnect_cases [of cam_exhausted]
    AttemptReconnect_cases [of cam_capturing]
  show ?thesis unfolding vals by auto
qed

subsection \<open>CameraManager::CaptureFrame and the capture loop\<close>

lemma CaptureFrame_invalid:
  assumes "camera_type s \<in> {FILE_VIDEO, WEBCAM, RTSP_STREAM, TEST_PATTERN}"
    and "data f \<noteq> []"
    and "\<not> CameraManager_ValidateFrame f"
  shows "CaptureFrame e (Inr f) s = Inr (True, s)"
  using assms by (auto simp: CaptureFrame_def and_then_def)

text \<open>
  C4 (as the code has it). When the type-specific capture yields a frame that is not
  empty and fails the validation, the statistics are not updated and the callback is not
  called, and \<^verbatim>\<open>CaptureFrame\<close> still returns \<^verbatim>\<open>true\<close>: the turn of the loop takes
  neither the reconnect path nor the \<open>ERROR\<close> path. Nothing of the manager changes;
  the turn ends with the pacing sleep and the loop goes on.
\<close>

theorem CaptureLoop_invalid_frame:
  "camera_type s \<in> {FILE_VIDEO, WEBCAM, RTSP_STREAM, TEST_PATTERN}
   \<and> data f \<noteq> [] \<and> \<not> CameraManager_ValidateFrame f
   \<longrightarrow> CaptureFrame e (Inr f) s = Inr (True, s)
       \<and> CaptureLoop_body e (Inr f) s =
           Inr (False,
                s\<lparr>events := events s
                     @ [Sleep_ms (1000 div max 1 (sint (cfg_fps (config s))))]\<rparr>)"
  by (auto simp: CaptureLoop_body_def CaptureFrame_invalid pace_def log_def)

theorem CaptureLoop_invalid_frame_witness:
  "CaptureFrame env0 (Inr frame_negative) cam_no_reconnect = Inr (True, cam_no_reconnect)
   \<and> CaptureLoop_body env0 (Inr frame_negative) cam_no_reconnect =
       Inr (False, cam_no_reconnect\<lparr>events := events cam_no_reconnect @ [Sleep_ms 66]\<rparr>)"
proof -
  have "camera_type cam_no_reconnect \<in> {FILE_VIDEO, WEBCAM, RTSP_STREAM, TEST_PATTERN}
      \<and> data frame_negative \<noteq> [] \<and> \<not> CameraManager_ValidateFrame frame_negative"
    by (simp add: cam_no_reconnect_def SetConfig_def config_negative_def cam_capturing_def SetFrameCallback_def
        frame_negative_def CameraManager_ValidateFrame_def)
  moreover have "1000 div max 1 (sint (cfg_fps (config cam_no_reconnect))) = 66"
    by (simp add: cam_no_reconnect_def SetConfig_def config_negative_def CameraConfig_default_def)
  ultimately show ?thesis
    using CaptureLoop_invalid_frame [of cam_no_reconnect frame_negative env0] by simp
qed

lemma GenerateColorBars_negative:
  "GenerateColorBars 0 (- 1) (- 1) = Inr frame_negative"
proof -
  have size: "unat ((signed (- 1 :: 32 word) :: 64 word) * signed (- 1 :: 32 word) * 3) = 3"
    by simp
  have zeros: "replicate 3 (0 :: 8 word) = [0, 0, 0]"
    by (simp add: numeral_3_eq_3)
  show ?thesis
    by (simp add: GenerateColorBars_def frame_negative_def size zeros)
qed

text \<open>
  The claim as stated fails: with reconnection disabled, a frame of three bytes and
  width -1 leaves the manager capturing with no error recorded, where a capture failure
  would record the error, set \<open>ERROR\<close> and leave the loop.
\<close>

theorem CaptureLoop_invalid_frame_counterexample:
  "GenerateColorBars 0 (cfg_width config_negative) (cfg_height config_negative)
     = Inr frame_negative
   \<and> data frame_negative \<noteq> []
   \<and> \<not> CameraManager_ValidateFrame frame_negative
   \<and> \<not> auto_reconnect (config cam_no_reconnect)
   \<and> frame_callback cam_no_reconnect
   \<and> (\<exists>s'. CaptureLoop_body env0 (Inr frame_negative) cam_no_reconnect = Inr (False, s')
           \<and> state s' = CAPTURING \<and> last_error s' = [])
   \<and> (\<exists>s'. CaptureLoop_body env0 (Inr Frame_default)
              (cam_no_reconnect\<lparr>camera_type := FILE_VIDEO\<rparr>) = Inr (True, s')
           \<and> state s' = ERROR
           \<and> last_error s' = ''Capture failed and reconnect disabled'')"
  by (simp add: frame_negative_def CameraManager_ValidateFrame_def cam_no_reconnect_def SetConfig_def config_negative_def
      cam_capturing_def SetFrameCallback_def CameraConfig_default_def CaptureLoop_body_def
      CaptureFrame_def and_then_def pace_def log_def Frame_default_def
      ShouldAttemptReconnect_def SetError_def SetState_def GenerateColorBars_negative)

subsection \<open>FrameProcessor::ProcessFrame\<close>

lemma append_detections_take:
  "append_detections cap acc ds = acc @ take (cap - length acc) ds"
proof (induction ds arbitrary: acc)
  case Nil
  show ?case by simp
next
  case (Cons d ds)
  show ?case
  proof (cases "length acc < cap")
    case True
    then obtain k where k: "cap - length acc = Suc k"
      by (metis Suc_diff_Suc)
    then have "cap - length (acc @ [d]) = k" by simp
    with True k Cons.IH [of "acc @ [d]"] show ?thesis by simp
  next
    case False
    then show ?thesis by simp
  qed
qed

lemma run_detectors_take:
  "run_detectors cap f ds acc = (Inr res, ds') \<Longrightarrow>
   res = acc @ take (cap - length acc) (detector_outputs f ds)"
proof (induction ds arbitrary: acc ds')
  case Nil
  then show ?case by simp
next
  case (Cons x ds)
  show ?case
  proof (cases x)
    case None
    with Cons.prems obtain ds1 where "run_detectors cap f ds acc = (Inr res, ds1)"
      by (auto split: prod.splits)
    with Cons.IH None show ?thesis by simp
  next
    case (Some d)
    obtain r d' where det: "Detect f d = (r, d')" by (cases "Detect f d")
    show ?thesis
    proof (cases r)
      case (Inl w)
      with Cons.prems Some det show ?thesis by simp
    next
      case (Inr found)
      with Cons.prems Some det obtain ds1 where
        "run_detectors cap f ds (append_detections cap acc found) = (Inr res, ds1)"
        by (auto split: prod.splits)
      then have "res = append_detections cap acc found
          @ take (cap - length (append_detections cap acc found)) (detector_outputs f ds)"
        by (rule Cons.IH)
      then show ?thesis
        using Some det Inr by (simp add: append_detections_take min_def)
    qed
  qed
qed

lemma fp_reachable_cap: "fp_reachable p \<Longrightarrow> 1 \<le> sint (max_detections_per_frame p)"
proof (induction rule: fp_reachable.induct)
  case constructed
  show ?case by (simp add: FrameProcessor_new_def DEFAULT_MAX_DETECTIONS_def)
next
  case (initialize p ds)
  then show ?case
    by (simp add: FrameProcessor_Initialize_def BasicMotionDetector_Initialize_def)
next
  case (cleanup p)
  then show ?case by (simp add: FrameProcessor_Cleanup_def)
next
  case (add p d)
  then show ?case by (simp add: AddDetector_def split: option.splits prod.splits)
next
  case (remove p n)
  then show ?case by (simp add: RemoveDetector_def)
next
  case (set_area p a)
  then show ?case by (simp add: SetMinDetectionArea_def)
next
  case (set_max p k)
  then show ?case by (simp add: SetMaxDetectionsPerFrame_def)
next
  case (process p t f)
  then show ?case
    by (simp add: ProcessFrame_def UpdateStatistics_def Let_def split: prod.splits)
qed

lemma size_t_cast:
  fixes m :: "32 word"
  assumes "0 \<le> sint m"
  shows "unat (signed m :: 64 word) = nat (sint m)"
proof -
  have "sint m < 2 ^ 31" using sint_lt [of m] by simp
  then have lt: "sint m < 2 ^ 64" by simp
  have "uint (signed m :: 64 word) = uint (word_of_int (sint m) :: 64 word)"
    by (simp only: scast_eq [of m])
  also have "\<dots> = sint m mod 2 ^ LENGTH(64)"
    by (rule uint_word_of_int)
  also have "\<dots> = sint m"
    using assms lt by simp
  finally have "uint (signed m :: 64 word) = sint m" .
  then show ?thesis by (simp only: unat_eq_nat_uint)
qed

lemma ProcessFrame_success:
  assumes "0 \<le> sint (max_detections_per_frame p)"
    and "ProcessFrame t f p = (r, p')" and "success r"
  shows "detections r
      = take (nat (sint (max_detections_per_frame p))) (detector_outputs f (detectors p))"
proof -
  define cap where "cap = unat (signed (max_detections_per_frame p) :: 64 word)"
  have cap: "cap = nat (sint (max_detections_per_frame p))"
    unfolding cap_def using assms(1) by (rule size_t_cast)
  from assms(2,3) have ok: "initialized p" "FrameProcessor_ValidateFrame f"
    by (auto simp: ProcessFrame_def CreateErrorResult_def split: if_splits)
  obtain res ds' where run: "run_detectors cap f (detectors p) [] = (res, ds')"
    by (cases "run_detectors cap f (detectors p) []")
  with assms(2,3) ok obtain found where "res = Inr found" "detections r = found"
    by (cases res)
       (auto simp: ProcessFrame_def cap_def CreateErrorResult_def
          ProcessingResult_default_def Let_def)
  with run have "detections r = [] @ take (cap - length ([]::Detection list))
      (detector_outputs f (detectors p))"
    using run_detectors_take [of cap f "detectors p" "[]" found ds'] by simp
  then show ?thesis by (simp add: cap)
qed

text \<open>
  C8. A successful \<^verbatim>\<open>ProcessFrame\<close> returns at most \<^verbatim>\<open>max_detections_per_frame\<close>
  detections: the detections of the detectors, taken in the order of registration and
  cut at the cap.
\<close>

theorem ProcessFrame_detections_capped:
  "fp_reachable p \<and> ProcessFrame t f p = (r, p') \<and> success r
   \<longrightarrow> length (detections r) \<le> nat (sint (max_detections_per_frame p))
       \<and> detections r
           = take (nat (sint (max_detections_per_frame p)))
               (detector_outputs f (detectors p))"
proof (intro impI, elim conjE)
  assume reach: "fp_reachable p" and run: "ProcessFrame t f p = (r, p')" and ok: "success r"
  from reach have "0 \<le> sint (max_detections_per_frame p)"
    using fp_reachable_cap [of p] by simp
  then have "detections r
      = take (nat (sint (max_detections_per_frame p))) (detector_outputs f (detectors p))"
    using run ok by (rule ProcessFrame_success)
  then show "length (detections r) \<le> nat (sint (max_detections_per_frame p))
      \<and> detections r
          = take (nat (sint (max_detections_per_frame p)))
              (detector_outputs f (detectors p))"
    by simp
qed

lemma fp_capped_eq:
  "fp_capped =
     \<lparr>detectors = [Some (Custom three_detections),
                    Some (Basic ((BasicMotionDetector_new draws0)\<lparr>md_initialized := True\<rparr>))],
      initialized = True, total_frames_processed = 0, total_detections = 0,
      total_processing_time = 0, min_detection_area = 100, max_detections_per_frame = 2\<rparr>"
  by (simp add: fp_capped_def FrameProcessor_Initialize_def AddDetector_def
      SetMaxDetectionsPerFrame_def FrameProcessor_new_def three_detections_def
      BasicMotionDetector_Initialize_def BasicMotionDetector_new_def DEFAULT_MIN_AREA_def
      DEFAULT_MAX_DETECTIONS_def)

lemma frame_gray32_valid: "FrameProcessor_ValidateFrame frame_gray32"
  by (simp add: FrameProcessor_ValidateFrame_def frame_gray32_def CalculateFrameSize_def
      MIN_FRAME_WIDTH_def MAX_FRAME_WIDTH_def MIN_FRAME_HEIGHT_def MAX_FRAME_HEIGHT_def)

lemma ProcessFrame_fp_capped:
  "fst (ProcessFrame 5 frame_gray32 fp_capped) =
     \<lparr>detections = [det_n 1, det_n 2], processing_time_ms = 5, success = True,
      error_message = []\<rparr>"
  by (simp add: ProcessFrame_def fp_capped_eq frame_gray32_valid three_detections_def
      BasicMotionDetector_Detect_def BasicMotionDetector_new_def Frame_default_def
      ProcessingResult_default_def Let_def)

theorem ProcessFrame_detections_capped_witness:
  "fp_reachable fp_capped
   \<and> success (fst (ProcessFrame 5 frame_gray32 fp_capped))
   \<and> detections (fst (ProcessFrame 5 frame_gray32 fp_capped)) = [det_n 1, det_n 2]
   \<and> length (detections (fst (ProcessFrame 5 frame_gray32 fp_capped))) \<le> 2
   \<and> detector_outputs frame_gray32 (detectors fp_capped) = [det_n 1, det_n 2, det_n 3]"
proof -
  have reach: "fp_reachable fp_capped"
    unfolding fp_capped_def
    by (intro fp_reachable.initialize fp_reachable.add fp_reachable.set_max
        fp_reachable.constructed)
  have ok: "success (fst (ProcessFrame 5 frame_gray32 fp_capped))"
    by (simp add: ProcessFrame_fp_capped)
  have cap: "nat (sint (max_detections_per_frame fp_capped)) = 2"
    by (simp add: fp_capped_eq)
  have outs: "detector_outputs frame_gray32 (detectors fp_capped)
      = [det_n 1, det_n 2, det_n 3]"
    by (simp add: fp_capped_eq three_detections_def BasicMotionDetector_Detect_def
        BasicMotionDetector_new_def Frame_default_def)
  from reach ok
    ProcessFrame_detections_capped [of fp_capped 5 frame_gray32
      "fst (ProcessFrame 5 frame_gray32 fp_capped)"
      "snd (ProcessFrame 5 frame_gray32 fp_capped)"]
  show ?thesis unfolding cap outs by simp
qed

text \<open>
  C9. When the processor is not initialised or the frame fails the validation,
  \<^verbatim>\<open>ProcessFrame\<close> returns a result without success and with an error message, and
  the processor, its three counters included, is what it was. A run that passes both
  tests counts its frame.
\<close>

theorem ProcessFrame_rejects:
  "(\<not> initialized p \<or> \<not> FrameProcessor_ValidateFrame f
    \<longrightarrow> \<not> success (fst (ProcessFrame t f p))
        \<and> error_message (fst (ProcessFrame t f p)) \<noteq> []
        \<and> detections (fst (ProcessFrame t f p)) = []
        \<and> snd (ProcessFrame t f p) = p
        \<and> total_frames_processed (snd (ProcessFrame t f p)) = total_frames_processed p
        \<and> total_detections (snd (ProcessFrame t f p)) = total_detections p
        \<and> total_processing_time (snd (ProcessFrame t f p)) = total_processing_time p)
   \<and> (initialized p \<and> FrameProcessor_ValidateFrame f
    \<longrightarrow> total_frames_processed (snd (ProcessFrame t f p)) = total_frames_processed p + 1
        \<and> total_processing_time (snd (ProcessFrame t f p)) = total_processing_time p + t)"
proof (intro conjI impI)
  assume "initialized p \<and> FrameProcessor_ValidateFrame f"
  then show "total_frames_processed (snd (ProcessFrame t f p)) = total_frames_processed p + 1"
    and "total_processing_time (snd (ProcessFrame t f p)) = total_processing_time p + t"
    by (auto simp: ProcessFrame_def UpdateStatistics_def Let_def split: prod.splits)
qed (auto simp: ProcessFrame_def CreateErrorResult_def)

theorem ProcessFrame_rejects_witness:
  "fst (ProcessFrame 5 frame_gray32 (FrameProcessor_new :: unit FrameProcessor))
     = CreateErrorResult ''FrameProcessor not initialized''
   \<and> snd (ProcessFrame 5 frame_gray32 (FrameProcessor_new :: unit FrameProcessor))
     = FrameProcessor_new
   \<and> \<not> success (fst (ProcessFrame 5 Frame_default fp_capped))
   \<and> error_message (fst (ProcessFrame 5 Frame_default fp_capped)) = ''Invalid frame data''
   \<and> snd (ProcessFrame 5 Frame_default fp_capped) = fp_capped
   \<and> total_frames_processed (snd (ProcessFrame 5 frame_gray32 fp_capped)) = 1"
proof -
  have a: "\<not> initialized (FrameProcessor_new :: unit FrameProcessor)"
    by (simp add: FrameProcessor_new_def)
  have b: "\<not> FrameProcessor_ValidateFrame Frame_default"
    by (simp add: FrameProcessor_ValidateFrame_def Frame_default_def)
  have c: "initialized fp_capped \<and> FrameProcessor_ValidateFrame frame_gray32"
    by (simp add: fp_capped_eq frame_gray32_valid)
  have d: "total_frames_processed fp_capped = 0"
    by (simp add: fp_capped_eq)
  have e: "fst (ProcessFrame 5 frame_gray32 (FrameProcessor_new :: unit FrameProcessor))
      = CreateErrorResult ''FrameProcessor not initialized''"
    "error_message (fst (ProcessFrame 5 Frame_default fp_capped)) = ''Invalid frame data''"
    using a b by (simp_all add: ProcessFrame_def CreateErrorResult_def fp_capped_eq)
  from a b c e
    ProcessFrame_rejects [of "FrameProcessor_new :: unit FrameProcessor" frame_gray32 5]
    ProcessFrame_rejects [of fp_capped Frame_default 5]
    ProcessFrame_rejects [of fp_capped frame_gray32 5]
  show ?thesis unfolding d by simp
qed

text \<open>
  C10. For a format that is not empty and not one of \<^verbatim>\<open>bgr\<close>, \<^verbatim>\<open>rgb\<close>, \<^verbatim>\<open>gray\<close>,
  \<^verbatim>\<open>jpeg\<close>, \<^verbatim>\<open>png\<close>, \<^verbatim>\<open>CalculateFrameSize\<close> is 0 for all dimensions, and a frame
  in such a format with some data and both dimensions between 32 and 4096 passes the
  validation of the processor, however short its data is.
\<close>

theorem ValidateFrame_unknown_format:
  "format f \<noteq> [] \<and> format f \<notin> {''bgr'', ''rgb'', ''gray'', ''jpeg'', ''png''}
   \<longrightarrow> CalculateFrameSize w h (format f) = 0
       \<and> (data f \<noteq> [] \<and> 32 \<le> sint (width f) \<and> sint (width f) \<le> 4096
            \<and> 32 \<le> sint (height f) \<and> sint (height f) \<le> 4096
          \<longrightarrow> FrameProcessor_ValidateFrame f)"
  by (auto simp: CalculateFrameSize_def FrameProcessor_ValidateFrame_def
      MIN_FRAME_WIDTH_def MAX_FRAME_WIDTH_def MIN_FRAME_HEIGHT_def MAX_FRAME_HEIGHT_def)

theorem ValidateFrame_unknown_format_witness:
  "CalculateFrameSize 4096 4096 ''yuv'' = 0
   \<and> length (data frame_yuv) = 1
   \<and> FrameProcessor_ValidateFrame frame_yuv
   \<and> \<not> FrameProcessor_ValidateFrame (frame_yuv\<lparr>format := ''bgr''\<rparr>)"
proof -
  have fmt: "format frame_yuv \<noteq> []
      \<and> format frame_yuv \<notin> {''bgr'', ''rgb'', ''gray'', ''jpeg'', ''png''}"
    by (simp add: frame_yuv_def)
  have dims: "data frame_yuv \<noteq> [] \<and> 32 \<le> sint (width frame_yuv)
      \<and> sint (width frame_yuv) \<le> 4096 \<and> 32 \<le> sint (height frame_yuv)
      \<and> sint (height frame_yuv) \<le> 4096"
    by (simp add: frame_yuv_def)
  have known: "\<not> FrameProcessor_ValidateFrame (frame_yuv\<lparr>format := ''bgr''\<rparr>)"
    by (simp add: FrameProcessor_ValidateFrame_def frame_yuv_def CalculateFrameSize_def
        MIN_FRAME_WIDTH_def MAX_FRAME_WIDTH_def MIN_FRAME_HEIGHT_def MAX_FRAME_HEIGHT_def)
  have len: "length (data frame_yuv) = 1" "format frame_yuv = ''yuv''"
    by (simp_all add: frame_yuv_def)
  from fmt dims known len ValidateFrame_unknown_format [of frame_yuv 4096 4096]
  show ?thesis by simp
qed

subsection \<open>The session registry\<close>

lemma length_update:
  "length (AList.update k v al) = (if k \<in> fst ` set al then length al else Suc (length al))"
  by (induction al) auto

lemma StartStream_registry:
  assumes "StartStream e camera_id url svc = Inr (st, resp, svc')"
  shows "svc' = svc
     \<or> (camera_id \<noteq> [] \<and> map_of (active_streams svc) camera_id = None
        \<and> length (active_streams svc) < MAX_CONCURRENT_STREAMS
        \<and> (\<exists>entry. active_streams svc'
              = AList.update camera_id entry (active_streams svc)))"
  using assms
  by (auto simp: StartStream_def and_then_def internal_error_def ValidateStreamRequest_def
      split: sum.splits if_splits error.splits prod.splits)

lemma StartStream_invariant:
  assumes "StartStream e camera_id url svc = Inr (st, resp, svc')"
    and "length (active_streams svc) \<le> MAX_CONCURRENT_STREAMS"
    and "distinct (map fst (active_streams svc))"
    and "[] \<notin> fst ` set (active_streams svc)"
  shows "length (active_streams svc') \<le> MAX_CONCURRENT_STREAMS
     \<and> distinct (map fst (active_streams svc'))
     \<and> [] \<notin> fst ` set (active_streams svc')"
proof -
  from StartStream_registry [OF assms(1)] show ?thesis
  proof
    assume "svc' = svc"
    with assms show ?thesis by simp
  next
    assume new: "camera_id \<noteq> [] \<and> map_of (active_streams svc) camera_id = None
        \<and> length (active_streams svc) < MAX_CONCURRENT_STREAMS
        \<and> (\<exists>entry. active_streams svc'
              = AList.update camera_id entry (active_streams svc))"
    then obtain entry where
      upd: "active_streams svc' = AList.update camera_id entry (active_streams svc)"
      by blast
    from new have absent: "camera_id \<notin> fst ` set (active_streams svc)"
      by (simp add: map_of_eq_None_iff)
    have "length (active_streams svc') = Suc (length (active_streams svc))"
      using absent by (simp add: upd length_update)
    moreover have "distinct (map fst (active_streams svc'))"
      using assms(3) by (simp add: upd distinct_update)
    moreover have "[] \<notin> fst ` set (active_streams svc')"
      using assms(4) new by (auto simp: upd dom_update)
    ultimately show ?thesis using new by simp
  qed
qed

lemma reachable_invariant:
  "reachable svc \<Longrightarrow>
   length (active_streams svc) \<le> MAX_CONCURRENT_STREAMS
   \<and> distinct (map fst (active_streams svc))
   \<and> [] \<notin> fst ` set (active_streams svc)"
proof (induction rule: reachable.induct)
  case (constructed e)
  show ?case by (simp add: VisionServiceImpl_new_def)
next
  case (start svc e camera_id url st resp svc')
  then show ?case using StartStream_invariant by blast
next
  case (stop svc camera_id st resp' svc')
  from stop.hyps(2) have "svc' = svc
      \<or> active_streams svc' = AList.delete camera_id (active_streams svc)"
    by (auto simp: StopStream_def and_then_def split: if_splits option.splits sum.splits)
  then show ?case
  proof
    assume "svc' = svc"
    with stop.IH show ?thesis by simp
  next
    assume del: "active_streams svc' = AList.delete camera_id (active_streams svc)"
    have "length (active_streams svc') \<le> length (active_streams svc)"
      by (simp add: del length_delete_le)
    moreover have "distinct (map fst (active_streams svc'))"
      using stop.IH by (simp add: del distinct_delete)
    moreover have "[] \<notin> fst ` set (active_streams svc')"
      using stop.IH dom_delete_subset [of camera_id "active_streams svc"]
      by (auto simp: del)
    ultimately show ?thesis using stop.IH by simp
  qed
next
  case (frame svc)
  then show ?case by (simp add: ProcessFrames_step_def)
next
  case (worker svc camera_id entry cm e captured left cm')
  from worker.hyps(2) have present: "camera_id \<in> fst ` set (active_streams svc)"
    by (metis map_of_eq_None_iff option.distinct(1))
  then have "camera_id \<noteq> []" using worker.IH by (metis (no_types))
  with present worker.IH show ?case
    by (auto simp: length_update distinct_update dom_update)
qed

lemma StartStream_at_cap:
  assumes "MAX_CONCURRENT_STREAMS \<le> length (active_streams svc)"
  shows "(StartStream e camera_id url svc = Inr (st, resp, svc') \<longrightarrow> svc' = svc)
     \<and> (ValidateStreamRequest (filesystem e) camera_id url = Inr OK
        \<longrightarrow> (\<exists>resp. StartStream e camera_id url svc = Inr (OK, resp, svc)
                \<and> status resp = STATUS_ERROR \<and> stream_id resp = []))"
proof (intro conjI impI)
  assume "StartStream e camera_id url svc = Inr (st, resp, svc')"
  from StartStream_registry [OF this] assms show "svc' = svc" by auto
next
  assume "ValidateStreamRequest (filesystem e) camera_id url = Inr OK"
  with assms show "\<exists>resp. StartStream e camera_id url svc = Inr (OK, resp, svc)
      \<and> status resp = STATUS_ERROR \<and> stream_id resp = []"
    by (simp add: StartStream_def and_then_def)
qed


lemma reachable_start_many: "reachable svc \<Longrightarrow> reachable (start_many e ids svc)"
proof (induction ids arbitrary: svc)
  case Nil
  then show ?case by simp
next
  case (Cons camera_id ids)
  show ?case
  proof (cases "StartStream e camera_id ''test://pattern'' svc")
    case (Inl x)
    with Cons.prems show ?thesis by simp
  next
    case (Inr r)
    obtain st resp svc' where r: "r = (st, resp, svc')" by (cases r)
    with Inr Cons.prems have "reachable svc'" by (auto intro: reachable.start)
    then have "reachable (start_many e ids svc')" by (rule Cons.IH)
    with Inr r show ?thesis by simp
  qed
qed

lemma Validate_test_pattern:
  "camera_id \<noteq> [] \<Longrightarrow>
   ValidateStreamRequest (filesystem env0) camera_id ''test://pattern'' = Inr OK"
  by (simp add: ValidateStreamRequest_def VisionService_IsValidCameraUrl_def
      IsValidCameraUrl_def DetectCameraType_def find_at_0_def and_then_def)

lemma to_string_0: "to_string 0 = ''0''"
  by (simp add: to_string.simps [of 0])

lemma StartStream_test_pattern:
  fixes svc :: "unit VisionServiceImpl"
  assumes "camera_id \<noteq> []" and "map_of (active_streams svc) camera_id = None"
    and "length (active_streams svc) < MAX_CONCURRENT_STREAMS"
  shows "StartStream env0 camera_id ''test://pattern'' svc =
     Inr (OK,
          \<lparr>status = STATUS_SUCCESS, message = ''Stream started successfully'',
           stream_id = camera_id @ ''_0''\<rparr>,
          svc\<lparr>active_streams := AList.update camera_id (test_entry camera_id)
                                   (active_streams svc),
               svc_total_streams_started := svc_total_streams_started svc + 1,
               metrics := IncrementStreamsStarted (metrics svc)\<rparr>)"
proof -
  have cm: "CameraManager_new env0 ''test://pattern'' = Inr cam_fresh"
    by (simp add: CameraManager_new_def DetectCameraType_def find_at_0_def and_then_def
        env0_def cam_fresh_def)
  have init: "Initialize_default env0 cam_fresh
      = Inr (True, cam_fresh\<lparr>state := READY,
                              events := [State_set INITIALIZING, State_set READY]\<rparr>)"
    by (simp add: Initialize_default_def Initialize_def CameraConfig_default_def
        and_then_def SetState_def log_def backend_init_def InitializeTestPattern_def
        cam_fresh_def env0_def CameraStats_new_def)
  have start: "StartCapture env0
        (cam_fresh\<lparr>state := READY, events := [State_set INITIALIZING, State_set READY]\<rparr>)
      = Inr (True, cam_capturing)"
    by (simp add: StartCapture_def env0_def SetState_def log_def cam_fresh_def
        cam_capturing_def)
  have now: "steady_now env0 = 0" "epoch_ms env0 = 0"
    by (simp_all add: env0_def)
  show ?thesis
    using assms
    by (simp add: StartStream_def Validate_test_pattern and_then_def cm init start
        GenerateStreamId_def StreamState_new_def test_entry_def now to_string_0)
qed

lemma svc_full_streams:
  "active_streams svc_full =
     map (\<lambda>k. (k, test_entry k))
       [''cam0'', ''cam1'', ''cam2'', ''cam3'', ''cam4'', ''cam5'', ''cam6'', ''cam7'',
        ''cam8'', ''cam9'']"
  by (simp add: svc_full_def StartStream_test_pattern VisionServiceImpl_new_def
      MAX_CONCURRENT_STREAMS_def)


text \<open>
  C2. The cap is 10. In every reachable state of the service the registry holds at
  most \<^verbatim>\<open>MAX_CONCURRENT_STREAMS\<close> entries (with distinct camera ids, so the length of
  the list is the number of streams). When the registry has reached the cap,
  \<^verbatim>\<open>StartStream\<close> never changes the service, and a request that passes the
  validation, and so comes to the tests under the lock, is answered with
  \<^verbatim>\<open>Status::OK\<close>, status \<^verbatim>\<open>error\<close> and no stream id.
\<close>

theorem registry_cap:
  "MAX_CONCURRENT_STREAMS = 10
   \<and> (reachable svc
      \<longrightarrow> length (active_streams svc) \<le> MAX_CONCURRENT_STREAMS
          \<and> distinct (map fst (active_streams svc)))
   \<and> (MAX_CONCURRENT_STREAMS \<le> length (active_streams svc)
      \<longrightarrow> (StartStream e camera_id url svc = Inr (st, resp, svc') \<longrightarrow> svc' = svc)
          \<and> (ValidateStreamRequest (filesystem e) camera_id url = Inr OK
             \<longrightarrow> (\<exists>resp. StartStream e camera_id url svc = Inr (OK, resp, svc)
                     \<and> status resp = STATUS_ERROR \<and> stream_id resp = [])))"
proof (intro conjI)
  show "MAX_CONCURRENT_STREAMS = 10" by (simp add: MAX_CONCURRENT_STREAMS_def)
  show "reachable svc
      \<longrightarrow> length (active_streams svc) \<le> MAX_CONCURRENT_STREAMS
          \<and> distinct (map fst (active_streams svc))"
    using reachable_invariant [of svc] by blast
  show "MAX_CONCURRENT_STREAMS \<le> length (active_streams svc)
      \<longrightarrow> (StartStream e camera_id url svc = Inr (st, resp, svc') \<longrightarrow> svc' = svc)
          \<and> (ValidateStreamRequest (filesystem e) camera_id url = Inr OK
             \<longrightarrow> (\<exists>resp. StartStream e camera_id url svc = Inr (OK, resp, svc)
                     \<and> status resp = STATUS_ERROR \<and> stream_id resp = []))"
    using StartStream_at_cap [of svc e camera_id url st resp svc'] by blast
qed

theorem registry_cap_witness:
  "reachable svc_full
   \<and> length (active_streams svc_full) = 10
   \<and> map_of (active_streams svc_full) ''cam10'' = None
   \<and> ValidateStreamRequest (filesystem env0) ''cam10'' ''test://pattern'' = Inr OK
   \<and> (\<exists>resp. StartStream env0 ''cam10'' ''test://pattern'' svc_full = Inr (OK, resp, svc_full)
          \<and> status resp = STATUS_ERROR \<and> stream_id resp = [])"
proof -
  have reach: "reachable svc_full"
    unfolding svc_full_def by (intro reachable_start_many reachable.constructed)
  have len: "length (active_streams svc_full) = 10"
    by (simp add: svc_full_streams)
  have absent: "map_of (active_streams svc_full) ''cam10'' = None"
    by (simp add: svc_full_streams)
  have valid: "ValidateStreamRequest (filesystem env0) ''cam10'' ''test://pattern'' = Inr OK"
    by (simp add: Validate_test_pattern)
  have full: "MAX_CONCURRENT_STREAMS \<le> length (active_streams svc_full)"
    by (simp add: len MAX_CONCURRENT_STREAMS_def)
  from reach len absent valid full
    registry_cap [of svc_full env0 "''cam10''" "''test://pattern''"]
  show ?thesis by blast
qed

lemma GetStreamStatus_absent:
  "map_of (active_streams svc) camera_id = None \<Longrightarrow>
   GetStreamStatus e camera_id svc =
     (OK, \<lparr>status = STATUS_STOPPED, message = ''No active stream'',
           resp_camera_id = camera_id, resp_stats = None\<rparr>)"
  by (simp add: GetStreamStatus_def)

lemma GetStreamStatus_empty_id:
  "reachable svc \<Longrightarrow>
   GetStreamStatus e [] svc =
     (OK, \<lparr>status = STATUS_STOPPED, message = ''No active stream'',
           resp_camera_id = [], resp_stats = None\<rparr>)"
  using reachable_invariant [of svc]
  by (intro GetStreamStatus_absent) (simp add: map_of_eq_None_iff)

text \<open>
  C5 (the code at the failing input). On the full registry above, and so on a reachable
  state, \<^verbatim>\<open>GetStreamStatus\<close> with an empty camera id answers \<^verbatim>\<open>Status::OK\<close> with
  status \<^verbatim>\<open>stopped\<close> and no statistics, as it does for the absent id
  \<^verbatim>\<open>inactive_cam\<close>; \<^verbatim>\<open>ValidateStatusRequest\<close>, which would reject the empty id as
  an invalid argument, is not called.
\<close>

theorem GetStreamStatus_empty_camera_id:
  "reachable svc_full
   \<and> GetStreamStatus env0 [] svc_full =
       (OK, \<lparr>status = ''stopped'', message = ''No active stream'',
             resp_camera_id = [], resp_stats = None\<rparr>)
   \<and> ValidateStatusRequest [] = Error INVALID_ARGUMENT ''Camera ID cannot be empty''
   \<and> GetStreamStatus env0 ''inactive_cam'' svc_full =
       (OK, \<lparr>status = ''stopped'', message = ''No active stream'',
             resp_camera_id = ''inactive_cam'', resp_stats = None\<rparr>)"
proof -
  have reach: "reachable svc_full"
    unfolding svc_full_def by (intro reachable_start_many reachable.constructed)
  have "map_of (active_streams svc_full) ''inactive_cam'' = None"
    by (simp add: svc_full_streams)
  then have "GetStreamStatus env0 ''inactive_cam'' svc_full =
       (OK, \<lparr>status = STATUS_STOPPED, message = ''No active stream'',
             resp_camera_id = ''inactive_cam'', resp_stats = None\<rparr>)"
    by (rule GetStreamStatus_absent)
  with reach GetStreamStatus_empty_id [OF reach, of env0] show ?thesis
    by (simp add: STATUS_STOPPED_def ValidateStatusRequest_def)
qed

end
